theory Spec2Isabelle
  imports Complex_Main
begin

section \<open>Spoof alerting service (backend/app/services/spoof_alerting.py)\<close>

text \<open>
  Python floats are modelled as real numbers: comparisons against the decimal
  thresholds of the source and the weighted sums are exact.  The wall clock
  (\<open>datetime.now().isoformat()\<close>) is a function from the number of clock reads
  made so far to a time stamp; the \<open>{x:.2f}\<close> formatting of a score is a
  parameter \<open>fmt\<close>.
\<close>

datatype AlertSeverity = LOW | MEDIUM | HIGH | CRITICAL

datatype AlertType =
    DEEPFAKE_DETECTED
  | LIVENESS_FAILED
  | UNUSUAL_GEOMETRY
  | TEXTURE_ANOMALY
  | BLINK_PATTERN_ANOMALY
  | TEMPORAL_INCONSISTENCY
  | FACE_NOT_DETECTED
  | MULTIPLE_FACES

text \<open>
  The indicator dictionary read by \<open>determine_alert_severity\<close>: one optional entry
  per key the function looks up (\<open>None\<close>: the key is absent, so \<open>.get\<close> returns
  its default).
\<close>

record indicators =
  blink_pattern_anomaly :: "real option"
  texture_anomaly :: "real option"
  face_not_detected :: "bool option"
  geometry_inconsistency :: "real option"
  temporal_anomaly :: "real option"

definition no_indicators :: indicators where
  "no_indicators = \<lparr>blink_pattern_anomaly = None, texture_anomaly = None,
     face_not_detected = None, geometry_inconsistency = None, temporal_anomaly = None\<rparr>"

text \<open>The session aggregates handed to the adjudicator (dictionaries read with \<open>.get\<close>).\<close>

record deepfake_analysis =
  da_deepfake_score :: "real option"
  da_face_detected :: "bool option"
  da_indicators :: "indicators option"

record liveness_analysis =
  la_liveness_score :: "real option"
  la_face_detected :: "bool option"

datatype details =
    DeepfakeDetails deepfake_analysis
  | LivenessDetails liveness_analysis
  | ReasonDetails string
  | OtherDetails

record Alert =
  alert_id :: string
  alert_type :: AlertType
  severity :: AlertSeverity
  timestamp :: string
  user_id :: "string option"
  session_id :: string
  message :: string
  alert_details :: details
  status :: string
  acknowledged_at :: "string option"
  acknowledged_by :: "string option"

text \<open>
  The service state: the alert store \<open>self.alerts\<close>, the dispatch queue (it holds
  references to the stored alert objects, here their positions in the store, which
  is append-only) and the number of clock reads made so far.
\<close>

record service =
  alerts :: "Alert list"
  alert_queue :: "nat list"
  ticks :: nat

definition init_service :: service where
  "init_service = \<lparr>alerts = [], alert_queue = [], ticks = 0\<rparr>"

definition dget :: "'a option \<Rightarrow> 'a \<Rightarrow> 'a" where
  "dget v d = (case v of None \<Rightarrow> d | Some x \<Rightarrow> x)"

definition create_alert ::
  "(nat \<Rightarrow> string) \<Rightarrow> AlertType \<Rightarrow> string \<Rightarrow> AlertSeverity \<Rightarrow> string \<Rightarrow> details \<Rightarrow>
   string option \<Rightarrow> service \<Rightarrow> Alert \<times> service" where
  "create_alert clk atype sid sev msg det uid s =
     (let aid = sid @ ''_'' @ clk (ticks s);
          alert = \<lparr>alert_id = aid, alert_type = atype, severity = sev,
                   timestamp = clk (ticks s + 1), user_id = uid, session_id = sid,
                   message = msg, alert_details = det, status = ''active'',
                   acknowledged_at = None, acknowledged_by = None\<rparr>
      in (alert, \<lparr>alerts = alerts s @ [alert],
                  alert_queue = alert_queue s @ [length (alerts s)],
                  ticks = ticks s + 2\<rparr>))"

text \<open>Python's \<open>sum\<close> over a list of booleans counts the true ones.\<close>

definition py_sum :: "bool list \<Rightarrow> nat" where
  "py_sum bs = sum_list (map (\<lambda>b. if b then 1 else 0) bs)"

definition determine_alert_severity :: "real \<Rightarrow> real \<Rightarrow> indicators \<Rightarrow> AlertSeverity" where
  "determine_alert_severity deepfake_score liveness_score ind =
     (let critical_indicators =
            [deepfake_score > 0.85,
             liveness_score < 0.2,
             dget (blink_pattern_anomaly ind) 0 > 0.8,
             dget (texture_anomaly ind) 0 > 0.9,
             dget (face_not_detected ind) False];
          high_indicators =
            [deepfake_score > 0.7,
             liveness_score < 0.35,
             dget (texture_anomaly ind) 0 > 0.7,
             dget (geometry_inconsistency ind) 0 > 0.8];
          medium_indicators =
            [deepfake_score > 0.55,
             liveness_score < 0.5,
             dget (temporal_anomaly ind) 0 > 0.6]
      in if py_sum critical_indicators \<ge> 2 \<or> deepfake_score > 0.85 then CRITICAL
         else if py_sum high_indicators \<ge> 2 \<or> deepfake_score > 0.75 then HIGH
         else if py_sum medium_indicators \<ge> 1 then MEDIUM
         else LOW)"

text \<open>
  The classifier in the words of the specification: a priority cascade over
  "at least k of these conditions hold".
\<close>

definition holds :: "bool list \<Rightarrow> nat" where
  "holds bs = length (filter (\<lambda>b. b) bs)"

definition classify_spec :: "real \<Rightarrow> real \<Rightarrow> indicators \<Rightarrow> AlertSeverity" where
  "classify_spec d l ind =
     (if d > 0.85 \<or>
         2 \<le> holds [d > 0.85, l < 0.2, dget (blink_pattern_anomaly ind) 0 > 0.8,
                     dget (texture_anomaly ind) 0 > 0.9, dget (face_not_detected ind) False]
      then CRITICAL
      else if d > 0.75 \<or>
         2 \<le> holds [d > 0.7, l < 0.35, dget (texture_anomaly ind) 0 > 0.7,
                     dget (geometry_inconsistency ind) 0 > 0.8]
      then HIGH
      else if 1 \<le> holds [d > 0.55, l < 0.5, dget (temporal_anomaly ind) 0 > 0.6]
      then MEDIUM
      else LOW)"

record verification_result =
  vr_session_id :: string
  vr_user_id :: "string option"
  verified :: bool
  vr_alerts :: "Alert list"
  recommendations :: "string list"
  vr_status :: string

definition thresholds_deepfake_score :: real where
  "thresholds_deepfake_score = 0.6"

definition thresholds_liveness_score :: real where
  "thresholds_liveness_score = 0.5"

text \<open>
  The three checks run one after the other on the running pair
  (alerts and recommendations of the result, service state).
\<close>

definition check_deepfake ::
  "(nat \<Rightarrow> string) \<Rightarrow> (real \<Rightarrow> string) \<Rightarrow> string \<Rightarrow> string option \<Rightarrow> deepfake_analysis \<Rightarrow>
   real \<Rightarrow> real \<Rightarrow> (Alert list \<times> string list) \<times> service \<Rightarrow> (Alert list \<times> string list) \<times> service" where
  "check_deepfake clk fmt sid uid da deepfake_score liveness_score acc =
     (case acc of ((als, recs), s) \<Rightarrow>
        if deepfake_score > thresholds_deepfake_score then
          (let sev = determine_alert_severity deepfake_score liveness_score
                       (dget (da_indicators da) no_indicators);
               (alert, s') = create_alert clk DEEPFAKE_DETECTED sid sev
                       (''Potential deepfake detected with score '' @ fmt deepfake_score)
                       (DeepfakeDetails da) uid s
           in ((als @ [alert], recs @ [''REJECT - Deepfake indicators detected'']), s'))
        else acc)"

definition check_liveness ::
  "(nat \<Rightarrow> string) \<Rightarrow> (real \<Rightarrow> string) \<Rightarrow> string \<Rightarrow> string option \<Rightarrow> liveness_analysis \<Rightarrow>
   real \<Rightarrow> (Alert list \<times> string list) \<times> service \<Rightarrow> (Alert list \<times> string list) \<times> service" where
  "check_liveness clk fmt sid uid la liveness_score acc =
     (case acc of ((als, recs), s) \<Rightarrow>
        if liveness_score < thresholds_liveness_score then
          (let (alert, s') = create_alert clk LIVENESS_FAILED sid HIGH
                       (''Liveness check failed with score '' @ fmt liveness_score)
                       (LivenessDetails la) uid s
           in ((als @ [alert], recs @ [''REJECT - Liveness verification failed'']), s'))
        else acc)"

definition check_face ::
  "(nat \<Rightarrow> string) \<Rightarrow> string \<Rightarrow> string option \<Rightarrow> deepfake_analysis \<Rightarrow>
   (Alert list \<times> string list) \<times> service \<Rightarrow> (Alert list \<times> string list) \<times> service" where
  "check_face clk sid uid da acc =
     (case acc of ((als, recs), s) \<Rightarrow>
        if \<not> dget (da_face_detected da) False then
          (let (alert, s') = create_alert clk FACE_NOT_DETECTED sid MEDIUM
                       ''Face could not be detected in video''
                       (ReasonDetails ''no_face_detected'') uid s
           in ((als @ [alert], recs @ [''REJECT - Face not detected'']), s'))
        else acc)"

definition evaluate_verification_result ::
  "(nat \<Rightarrow> string) \<Rightarrow> (real \<Rightarrow> string) \<Rightarrow> string \<Rightarrow> string option \<Rightarrow> deepfake_analysis \<Rightarrow>
   liveness_analysis \<Rightarrow> service \<Rightarrow> verification_result \<times> service" where
  "evaluate_verification_result clk fmt sid uid da la s =
     (let deepfake_score = dget (da_deepfake_score da) 0;
          liveness_score = dget (la_liveness_score la) 0;
          acc1 = check_deepfake clk fmt sid uid da deepfake_score liveness_score (([], []), s);
          acc2 = check_liveness clk fmt sid uid la liveness_score acc1;
          acc3 = check_face clk sid uid da acc2
      in case acc3 of ((als, recs), s') \<Rightarrow>
           if als \<noteq> [] then
             (\<lparr>vr_session_id = sid, vr_user_id = uid, verified = False, vr_alerts = als,
               recommendations = recs, vr_status = ''FAILED''\<rparr>, s')
           else
             (\<lparr>vr_session_id = sid, vr_user_id = uid, verified = True, vr_alerts = als,
               recommendations = recs @ [''APPROVE - Identity verification passed''],
               vr_status = ''PASSED''\<rparr>, s'))"

text \<open>
  \<open>acknowledge_alert\<close>: the loop over the store returns at the first alert whose
  id matches; the status of the alert is not looked at.
\<close>

fun find_alert :: "string \<Rightarrow> Alert list \<Rightarrow> nat option" where
  "find_alert aid [] = None"
| "find_alert aid (a # as) =
     (if alert_id a = aid then Some 0
      else (case find_alert aid as of None \<Rightarrow> None | Some i \<Rightarrow> Some (Suc i)))"

definition acknowledge_alert ::
  "(nat \<Rightarrow> string) \<Rightarrow> string \<Rightarrow> string \<Rightarrow> service \<Rightarrow> bool \<times> service" where
  "acknowledge_alert clk aid who s =
     (case find_alert aid (alerts s) of
        None \<Rightarrow> (False, s)
      | Some i \<Rightarrow>
          (True, s\<lparr>alerts := (alerts s)[i := (alerts s ! i)\<lparr>status := ''acknowledged'',
                       acknowledged_at := Some (clk (ticks s)),
                       acknowledged_by := Some who\<rparr>],
                   ticks := ticks s + 1\<rparr>))"

definition get_active_alerts :: "service \<Rightarrow> Alert list" where
  "get_active_alerts s = filter (\<lambda>a. status a = ''active'') (alerts s)"


section \<open>NumPy, OpenCV and MediaPipe primitives\<close>

type_synonym point = "real \<times> real \<times> real"

type_synonym rect = "int \<times> int \<times> int \<times> int"

definition norm3 :: "point \<Rightarrow> real" where
  "norm3 p = (case p of (x, y, z) \<Rightarrow> sqrt (x * x + y * y + z * z))"

definition sub3 :: "point \<Rightarrow> point \<Rightarrow> point" where
  "sub3 p q = (case p of (x, y, z) \<Rightarrow> case q of (x', y', z') \<Rightarrow> (x - x', y - y', z - z'))"

definition np_clip :: "real \<Rightarrow> real \<Rightarrow> real \<Rightarrow> real" where
  "np_clip x lo hi = min (max x lo) hi"

definition np_mean :: "real list \<Rightarrow> real" where
  "np_mean xs = sum_list xs / real (length xs)"

definition np_var :: "real list \<Rightarrow> real" where
  "np_var xs = np_mean (map (\<lambda>x. (x - np_mean xs) * (x - np_mean xs)) xs)"

definition np_std :: "real list \<Rightarrow> real" where
  "np_std xs = sqrt (np_var xs)"

text \<open>\<open>np.max\<close> raises on an empty array: \<open>None\<close>.\<close>

fun np_max :: "real list \<Rightarrow> real option" where
  "np_max [] = None"
| "np_max (x # xs) = Some (fold max xs x)"

text \<open>\<open>int(x)\<close> on a float truncates towards zero.\<close>

definition py_int :: "real \<Rightarrow> int" where
  "py_int x = (if x \<ge> 0 then \<lfloor>x\<rfloor> else \<lceil>x\<rceil>)"

text \<open>\<open>xs[i]\<close> and the fancy index \<open>xs[[i, j, ...]]\<close>; \<open>None\<close> is IndexError.\<close>

definition py_index :: "'a list \<Rightarrow> nat \<Rightarrow> 'a option" where
  "py_index xs i = (if i < length xs then Some (xs ! i) else None)"

definition take_rows :: "'a list \<Rightarrow> nat list \<Rightarrow> 'a list option" where
  "take_rows xs idx = (if list_all (\<lambda>i. i < length xs) idx then Some (map (\<lambda>i. xs ! i) idx) else None)"

text \<open>
  \<open>np.mean(landmarks, axis=0)\<close>: the centroid of the rows; on an empty array the
  result is NaN (\<open>None\<close>), with a warning and no exception.
\<close>

definition centroid :: "point list \<Rightarrow> point option" where
  "centroid ps =
     (if ps = [] then None
      else Some (np_mean (map fst ps), np_mean (map (\<lambda>p. fst (snd p)) ps),
                 np_mean (map (\<lambda>p. snd (snd p)) ps)))"

text \<open>
  What the image libraries compute from a frame is not part of the repository; it
  is a parameter of the model.  \<open>'f\<close> is the type of frames.
\<close>

record texture_raw =
  raw_laplacian_variance :: real
  raw_edge_density :: real
  raw_median_diff_mean :: real
  raw_crop_shape :: "nat \<times> nat"
  raw_border_variances :: "real list"
  raw_block_artifacts :: real

record 'f cv =
  frame_empty :: "'f \<Rightarrow> bool"
  frame_shape :: "'f \<Rightarrow> nat \<times> nat"
  cascade_faces :: "'f \<Rightarrow> rect list"
  cvt_rgb :: "'f \<Rightarrow> bool"
  cvt_gray :: "'f \<Rightarrow> bool"
  face_mesh :: "'f \<Rightarrow> point list option"
  median_absdiff :: "'f \<Rightarrow> 'f \<Rightarrow> nat option"
  gray_col_means :: "'f \<Rightarrow> real list"
  texture_measure :: "'f \<Rightarrow> rect \<Rightarrow> texture_raw option"
  mean_absdiff :: "'f \<Rightarrow> 'f \<Rightarrow> real option"

text \<open>
  \<^item> \<open>frame_empty f\<close>: \<open>frame is None or frame.size == 0\<close>;
  \<^item> \<open>frame_shape f\<close>: \<open>(frame.shape[0], frame.shape[1])\<close>, height and width;
  \<^item> \<open>cascade_faces f\<close>: the rectangles returned by \<open>detect_faces_cascade\<close>, which
    catches every exception of the classifier and then returns the empty list;
  \<^item> \<open>cvt_rgb f\<close>, \<open>cvt_gray f\<close>: the colour conversion returns (false: it raises);
  \<^item> \<open>face_mesh f\<close>: the normalised landmarks of the first face found by the face
    mesh, \<open>None\<close> when it finds no face or raises;
  \<^item> \<open>median_absdiff f g\<close>: \<open>np.median(cv2.absdiff(gray f, gray g))\<close> in halves (the
    median of 8-bit values is a non-negative multiple of one half), \<open>None\<close> when
    \<open>absdiff\<close> raises (the shapes differ);
  \<^item> \<open>gray_col_means f\<close>: \<open>np.mean(gray f, axis=0)\<close>, one mean per column;
  \<^item> \<open>texture_measure f r\<close>: the measurements taken on the crop \<open>r\<close> of the frame in
    \<open>analyze_micro_textures\<close>, \<open>None\<close> when one of the library calls raises;
  \<^item> \<open>mean_absdiff f g\<close>: \<open>np.mean(cv2.absdiff(gray f, gray g))\<close>, \<open>None\<close> when a
    conversion or \<open>absdiff\<close> raises.
\<close>

section \<open>Liveness detection (backend/app/services/liveness_detection.py)\<close>

definition LEFT_EYE :: "nat list" where
  "LEFT_EYE = [362, 385, 387, 263, 373, 380]"

definition RIGHT_EYE :: "nat list" where
  "RIGHT_EYE = [33, 160, 158, 133, 153, 144]"

text \<open>The argument holds the six rows selected by \<open>LEFT_EYE\<close> or \<open>RIGHT_EYE\<close>.\<close>

definition eye_aspect_ratio :: "point list \<Rightarrow> real" where
  "eye_aspect_ratio eye_points =
     (let A = norm3 (sub3 (eye_points ! 1) (eye_points ! 5));
          B = norm3 (sub3 (eye_points ! 2) (eye_points ! 4));
          C = norm3 (sub3 (eye_points ! 0) (eye_points ! 3))
      in if C > 0 then (A + B) / (2 * C) else 0)"

definition detect_blink :: "point list option \<Rightarrow> bool \<times> real" where
  "detect_blink landmarks =
     (case landmarks of
        None \<Rightarrow> (False, 0)
      | Some lms \<Rightarrow>
          if length lms = 0 then (False, 0)
          else if length lms < 400 then (False, 0)
          else (case (take_rows lms LEFT_EYE, take_rows lms RIGHT_EYE) of
                  (Some left_eye_points, Some right_eye_points) \<Rightarrow>
                    (let left_ear = eye_aspect_ratio left_eye_points;
                         right_ear = eye_aspect_ratio right_eye_points;
                         avg_ear = (left_ear + right_ear) / 2;
                         is_blink = avg_ear < 0.15;
                         confidence = (if is_blink then 1 - avg_ear else 0)
                     in (is_blink, min confidence 1))
                | _ \<Rightarrow> (False, 0)))"

definition detect_mouth_open :: "point list option \<Rightarrow> bool \<times> real" where
  "detect_mouth_open landmarks =
     (case landmarks of
        None \<Rightarrow> (False, 0)
      | Some lms \<Rightarrow>
          if length lms < 400 then (False, 0)
          else (case (py_index lms 13, py_index lms 14) of
                  (Some mouth_top, Some mouth_bottom) \<Rightarrow>
                    (let mouth_distance = norm3 (sub3 mouth_bottom mouth_top);
                         mouth_open = mouth_distance > 20;
                         confidence = (if mouth_open then min (mouth_distance / 20) 1 else 0)
                     in (mouth_open, min confidence 1))
                | _ \<Rightarrow> (False, 0)))"

text \<open>
  \<open>prev_frame_landmarks\<close> holds the landmarks of the previous frame, or, after the
  motion fallback, the grey image of the previous frame.
\<close>

datatype 'f prev_frame = PrevLandmarks "point list" | PrevGray 'f

record 'f LivenessDetector =
  confidence_threshold :: real
  lv_use_mediapipe :: bool
  prev_frame_landmarks :: "'f prev_frame option"

datatype move_details = Reason string | Displacement "real option" "string list"

text \<open>
  The displacement of the centroid.  Outer \<open>None\<close>: the subtraction raises (a grey
  image is stored and its column means do not broadcast against three
  coordinates); inner \<open>None\<close>: the displacement is NaN (an empty landmark array).
\<close>

definition displacement_of :: "'f cv \<Rightarrow> 'f prev_frame \<Rightarrow> point list \<Rightarrow> real option option" where
  "displacement_of cv prev cur =
     (case prev of
        PrevLandmarks ps \<Rightarrow>
          (case (centroid ps, centroid cur) of
             (Some p, Some c) \<Rightarrow> Some (Some (norm3 (sub3 c p)))
           | _ \<Rightarrow> Some None)
      | PrevGray g \<Rightarrow>
          (case centroid cur of
             None \<Rightarrow> Some None
           | Some c \<Rightarrow>
               (case gray_col_means cv g of
                  [m] \<Rightarrow> Some (Some (norm3 (sub3 c (m, m, m))))
                | [m0, m1, m2] \<Rightarrow> Some (Some (norm3 (sub3 c (m0, m1, m2))))
                | _ \<Rightarrow> None)))"

definition detect_head_movement ::
  "'f cv \<Rightarrow> point list option \<Rightarrow> 'f LivenessDetector \<Rightarrow>
   (bool \<times> real \<times> move_details) \<times> 'f LivenessDetector" where
  "detect_head_movement cv current_landmarks s =
     (case current_landmarks of
        None \<Rightarrow> ((False, 0, Reason ''no_landmarks''), s)
      | Some cur \<Rightarrow>
          (case prev_frame_landmarks s of
             None \<Rightarrow> ((False, 0, Reason ''no_previous_frame''),
                       s\<lparr>prev_frame_landmarks := Some (PrevLandmarks cur)\<rparr>)
           | Some prev \<Rightarrow>
               (case displacement_of cv prev cur of
                  None \<Rightarrow> ((False, 0, Reason ''processing_error''), s)
                | Some None \<Rightarrow>
                    ((False, 0, Displacement None []),
                     s\<lparr>prev_frame_landmarks := Some (PrevLandmarks cur)\<rparr>)
                | Some (Some displacement) \<Rightarrow>
                    (let movement_detected = displacement > 15;
                         confidence = (if movement_detected then min (displacement / 15) 1 else 0)
                     in ((movement_detected, confidence,
                          Displacement (Some displacement)
                            (if movement_detected then [''head_movement''] else [])),
                         s\<lparr>prev_frame_landmarks := Some (PrevLandmarks cur)\<rparr>)))))"

text \<open>
  The motion fallback.  When landmarks are stored as the previous frame,
  \<open>cv2.absdiff\<close> raises (the arrays differ in type) and the handler returns 0.1.
\<close>

definition detect_motion_in_frame ::
  "'f cv \<Rightarrow> 'f \<Rightarrow> 'f LivenessDetector \<Rightarrow> real \<times> 'f LivenessDetector" where
  "detect_motion_in_frame cv frame s =
     (if \<not> cvt_gray cv frame then (0.1, s)
      else (case prev_frame_landmarks s of
              None \<Rightarrow> (0.2, s\<lparr>prev_frame_landmarks := Some (PrevGray frame)\<rparr>)
            | Some (PrevLandmarks ps) \<Rightarrow> (0.1, s)
            | Some (PrevGray g) \<Rightarrow>
                (case median_absdiff cv frame g of
                   None \<Rightarrow> (0.1, s)
                 | Some k \<Rightarrow>
                     (let motion_magnitude = real k / 2;
                          motion_score = min (motion_magnitude / 50) 1
                      in (motion_score, s\<lparr>prev_frame_landmarks := Some (PrevGray frame)\<rparr>)))))"

datatype detections =
    NoDetections
  | DetectionsError
  | Detections "bool \<times> real" "bool \<times> real \<times> move_details" "bool \<times> real"

record liveness_result =
  lr_face_detected :: bool
  liveness_score :: real
  is_likely_live :: "bool option"
  lr_detections :: detections

definition lv_landmarks :: "'f cv \<Rightarrow> 'f \<Rightarrow> 'f LivenessDetector \<Rightarrow> point list option" where
  "lv_landmarks cv frame s = (if lv_use_mediapipe s then face_mesh cv frame else None)"

definition LivenessDetector_process_frame ::
  "'f cv \<Rightarrow> 'f \<Rightarrow> 'f LivenessDetector \<Rightarrow> liveness_result \<times> 'f LivenessDetector" where
  "LivenessDetector_process_frame cv frame s =
     (if frame_empty cv frame then
        (\<lparr>lr_face_detected = False, liveness_score = 0, is_likely_live = None,
          lr_detections = NoDetections\<rparr>, s)
      else
        (let faces = cascade_faces cv frame;
             face_detected = (length faces > 0)
         in if \<not> cvt_rgb cv frame then
              (\<lparr>lr_face_detected = False, liveness_score = 0, is_likely_live = None,
                lr_detections = DetectionsError\<rparr>, s)
            else
              (let landmarks = lv_landmarks cv frame s;
                   (blink, (move, s'), mouth) =
                     (if landmarks \<noteq> None then
                        (detect_blink landmarks, detect_head_movement cv landmarks s,
                         detect_mouth_open landmarks)
                      else
                        (let (m, s1) = detect_motion_in_frame cv frame s
                         in ((False, 0), ((False, m, Reason ''motion_fallback''), s1), (False, 0))));
                   blink_conf = snd blink;
                   move_conf = fst (snd move);
                   mouth_conf = snd mouth;
                   score0 = blink_conf * 0.3 + move_conf * 0.4 + mouth_conf * 0.3;
                   score = (if landmarks = None \<and> face_detected then max score0 0.5 else score0)
               in (\<lparr>lr_face_detected = face_detected, liveness_score = score,
                     is_likely_live = Some (score > confidence_threshold s),
                     lr_detections = Detections blink move mouth\<rparr>, s'))))"


section \<open>Deepfake detection (backend/app/services/deepfake_detection.py)\<close>

record geometry =
  face_height :: real
  face_width :: real
  mouth_width :: real
  mouth_face_ratio :: real
  width_height_ratio :: real

record 'f DeepfakeDetector =
  history_size :: int
  df_use_mediapipe :: bool
  frame_history :: "'f list"
  blink_history :: "real list"
  face_geometry_history :: "geometry list"

definition init_detector :: "int \<Rightarrow> bool \<Rightarrow> 'f DeepfakeDetector" where
  "init_detector n mp = \<lparr>history_size = n, df_use_mediapipe = mp, frame_history = [],
     blink_history = [], face_geometry_history = []\<rparr>"

text \<open>
  The update of a history, written three times in the source:
  \<open>h.append(x)\<close>, then \<open>if len(h) > self.history_size: h.pop(0)\<close>.
\<close>

definition push_history :: "int \<Rightarrow> 'a list \<Rightarrow> 'a \<Rightarrow> 'a list" where
  "push_history n h x =
     (let h' = h @ [x] in if int (length h') > n then tl h' else h')"

subsection \<open>Texture\<close>

record texture_analysis =
  tx_laplacian_variance :: real
  tx_edge_density :: real
  tx_smoothness_score :: real
  tx_boundary_artifacts_confidence :: real
  tx_compression_artifacts_confidence :: real
  tx_anomaly_score :: real
  tx_error :: bool

definition analyze_smoothness :: "real \<Rightarrow> real" where
  "analyze_smoothness mean_diff = np_clip (1 - mean_diff / 255) 0 1"

definition detect_boundary_artifacts :: "nat \<times> nat \<Rightarrow> real list \<Rightarrow> real" where
  "detect_boundary_artifacts shape border_variances =
     (case shape of (h, w) \<Rightarrow>
        (let border_size = min 20 (min (h div 5) (w div 5))
         in if border_size < 5 then 0
            else (let artifact_score =
                        (if border_variances \<noteq> [] then np_mean border_variances / 100 else 0)
                  in np_clip artifact_score 0 1)))"

text \<open>\<open>None\<close>: the division by the area of an empty crop raises.\<close>

definition detect_compression_artifacts :: "nat \<times> nat \<Rightarrow> real \<Rightarrow> real option" where
  "detect_compression_artifacts shape block_artifacts =
     (case shape of (h, w) \<Rightarrow>
        if h * w = 0 then None
        else (let artifact_score = block_artifacts / real (h * w)
              in Some (np_clip (artifact_score / 100) 0 1)))"

definition compute_texture_anomaly_score :: "real \<Rightarrow> real \<Rightarrow> real \<Rightarrow> real \<Rightarrow> real" where
  "compute_texture_anomaly_score laplacian_var edge_density smoothness boundary_artifacts =
     (let texture_score =
            (1 - np_clip (laplacian_var / 1000) 0 1) * 0.3 +
            (1 - edge_density) * 0.3 +
            smoothness * 0.2 +
            boundary_artifacts * 0.2
      in np_clip texture_score 0 1)"

definition texture_fallback :: texture_analysis where
  "texture_fallback = \<lparr>tx_laplacian_variance = 0, tx_edge_density = 0,
     tx_smoothness_score = 0.5, tx_boundary_artifacts_confidence = 0,
     tx_compression_artifacts_confidence = 0, tx_anomaly_score = 0.2, tx_error = True\<rparr>"

text \<open>The crop: the face region, or the central 80 per cent of the frame.\<close>

definition crop_region :: "'f cv \<Rightarrow> 'f \<Rightarrow> rect option \<Rightarrow> rect" where
  "crop_region cv frame face_region =
     (case face_region of
        None \<Rightarrow>
          (case frame_shape cv frame of (h, w) \<Rightarrow>
             (py_int (real w * 0.1), py_int (real h * 0.1),
              py_int (real w * 0.8), py_int (real h * 0.8)))
      | Some r \<Rightarrow> r)"

definition analyze_micro_textures :: "'f cv \<Rightarrow> 'f \<Rightarrow> rect option \<Rightarrow> texture_analysis" where
  "analyze_micro_textures cv frame face_region =
     (case texture_measure cv frame (crop_region cv frame face_region) of
        None \<Rightarrow> texture_fallback
      | Some raw \<Rightarrow>
          (let laplacian_variance = raw_laplacian_variance raw;
               edge_density = raw_edge_density raw;
               smoothness = analyze_smoothness (raw_median_diff_mean raw);
               boundary_artifacts =
                 detect_boundary_artifacts (raw_crop_shape raw) (raw_border_variances raw)
           in case detect_compression_artifacts (raw_crop_shape raw) (raw_block_artifacts raw) of
                None \<Rightarrow> texture_fallback
              | Some compression_artifacts \<Rightarrow>
                  \<lparr>tx_laplacian_variance = laplacian_variance,
                    tx_edge_density = edge_density,
                    tx_smoothness_score = smoothness,
                    tx_boundary_artifacts_confidence = boundary_artifacts,
                    tx_compression_artifacts_confidence = compression_artifacts,
                    tx_anomaly_score = compute_texture_anomaly_score laplacian_variance
                       edge_density smoothness boundary_artifacts,
                    tx_error = False\<rparr>))"

subsection \<open>Blink patterns\<close>

fun count_blinks :: "real list \<Rightarrow> bool \<Rightarrow> nat \<Rightarrow> nat" where
  "count_blinks [] was_closed blinks = blinks"
| "count_blinks (ear # rest) was_closed blinks =
     (let is_closed = (ear < 0.15)
      in count_blinks rest is_closed (if was_closed \<and> \<not> is_closed then blinks + 1 else blinks))"

definition calculate_blink_rate :: "real list \<Rightarrow> real" where
  "calculate_blink_rate h =
     (if length h < 10 then 0
      else (let blinks = count_blinks h False 0
            in (real blinks / real (length h)) * 60 * 30 / 60))"

text \<open>
  \<open>signal.correlate(x, x, mode='full')\<close> from its middle on: entry \<open>k\<close> is the
  correlation of the sequence with itself shifted by \<open>k\<close>.
\<close>

definition autocorr :: "real list \<Rightarrow> nat \<Rightarrow> real" where
  "autocorr xs k = sum_list (map (\<lambda>(a, b). a * b) (zip xs (drop k xs)))"

definition correlation_half :: "real list \<Rightarrow> real list" where
  "correlation_half xs = map (autocorr xs) [0..<length xs]"

text \<open>The Python slice \<open>xs[lo:hi]\<close> for non-negative bounds.\<close>

definition py_slice :: "'a list \<Rightarrow> nat \<Rightarrow> nat \<Rightarrow> 'a list" where
  "py_slice xs lo hi = drop lo (take hi xs)"

text \<open>\<open>None\<close>: \<open>np.max\<close> raises on an empty slice.\<close>

definition detect_blink_pattern_anomaly :: "real list \<Rightarrow> real option" where
  "detect_blink_pattern_anomaly h =
     (if length h < 20 then Some 0
      else if np_std h < 1 / 10 ^ 6 then Some 1
      else (let correlation = correlation_half h;
                correlation = map (\<lambda>c. c / (correlation ! 0)) correlation
            in case np_max (py_slice correlation 10 (min 50 (length correlation))) of
                 None \<Rightarrow> None
               | Some periodicity_score \<Rightarrow> Some (np_clip (periodicity_score - 0.5) 0 1)))"

fun blink_durations :: "real list \<Rightarrow> bool \<Rightarrow> nat \<Rightarrow> nat list \<Rightarrow> nat list" where
  "blink_durations [] in_blink duration acc = acc"
| "blink_durations (ear # rest) in_blink duration acc =
     (if ear < 0.15 then
        (if \<not> in_blink then blink_durations rest True 1 acc
         else blink_durations rest in_blink (duration + 1) acc)
      else
        (if in_blink then blink_durations rest False 0 (acc @ [duration])
         else blink_durations rest in_blink duration acc))"

definition detect_blink_duration_anomaly :: "real list \<Rightarrow> real" where
  "detect_blink_duration_anomaly h =
     (if length h < 10 then 0
      else (let durations = blink_durations h False 0 []
            in if durations = [] then 0
               else (let abnormal_count = length (filter (\<lambda>d. d < 2 \<or> d > 15) durations);
                         anomaly_score = real abnormal_count / real (length durations)
                     in np_clip anomaly_score 0 1)))"

record blink_analysis =
  bl_current_ear :: real
  bl_blink_rate :: real
  bl_blink_pattern_anomaly :: real
  bl_blink_duration_anomaly :: real

text \<open>
  The analyses return \<open>None\<close> where the source raises; the state returned holds
  what was written before the exception.
\<close>

definition analyze_blink_patterns ::
  "point list \<Rightarrow> 'f DeepfakeDetector \<Rightarrow> blink_analysis option \<times> 'f DeepfakeDetector" where
  "analyze_blink_patterns landmarks d =
     (case (take_rows landmarks LEFT_EYE, take_rows landmarks RIGHT_EYE) of
        (Some left_eye, Some right_eye) \<Rightarrow>
          (let left_ear = eye_aspect_ratio left_eye;
               right_ear = eye_aspect_ratio right_eye;
               avg_ear = (left_ear + right_ear) / 2;
               d' = d\<lparr>blink_history := push_history (history_size d) (blink_history d) avg_ear\<rparr>
           in case detect_blink_pattern_anomaly (blink_history d') of
                None \<Rightarrow> (None, d')
              | Some pattern_anomaly \<Rightarrow>
                  (Some \<lparr>bl_current_ear = avg_ear,
                         bl_blink_rate = calculate_blink_rate (blink_history d'),
                         bl_blink_pattern_anomaly = pattern_anomaly,
                         bl_blink_duration_anomaly =
                           detect_blink_duration_anomaly (blink_history d')\<rparr>, d'))
      | _ \<Rightarrow> (None, d))"

subsection \<open>Face geometry\<close>

record geometry_analysis =
  ge_face_height :: real
  ge_face_width :: real
  ge_mouth_face_ratio :: real
  ge_width_height_ratio :: real
  ge_geometry_consistency_score :: real

definition analyze_geometry_consistency :: "geometry list \<Rightarrow> real" where
  "analyze_geometry_consistency h =
     (if length h < 5 then 0
      else (let ratios = map width_height_ratio h;
                consistency = np_std ratios;
                anomaly = max 0 (1 - consistency / 0.1)
            in np_clip anomaly 0 1))"

definition analyze_face_geometry ::
  "point list \<Rightarrow> 'f DeepfakeDetector \<Rightarrow> geometry_analysis option \<times> 'f DeepfakeDetector" where
  "analyze_face_geometry landmarks d =
     (case (py_index landmarks 1, py_index landmarks 152, py_index landmarks 33,
            py_index landmarks 263, py_index landmarks 61, py_index landmarks 291) of
        (Some nose_tip, Some chin, Some left_eye, Some right_eye, Some left_mouth, Some right_mouth) \<Rightarrow>
          (let fh = norm3 (sub3 chin nose_tip);
               fw = norm3 (sub3 right_eye left_eye);
               mw = norm3 (sub3 right_mouth left_mouth);
               mfr = mw / (fh + 1 / 10 ^ 6);
               whr = fw / (fh + 1 / 10 ^ 6);
               g = \<lparr>face_height = fh, face_width = fw, mouth_width = mw,
                    mouth_face_ratio = mfr, width_height_ratio = whr\<rparr>;
               d' = d\<lparr>face_geometry_history :=
                        push_history (history_size d) (face_geometry_history d) g\<rparr>;
               consistency_score = analyze_geometry_consistency (face_geometry_history d')
           in (Some \<lparr>ge_face_height = fh, ge_face_width = fw, ge_mouth_face_ratio = mfr,
                     ge_width_height_ratio = whr,
                     ge_geometry_consistency_score = consistency_score\<rparr>, d'))
      | _ \<Rightarrow> (None, d))"

subsection \<open>Temporal consistency\<close>

record temporal_analysis =
  tm_temporal_anomaly :: real
  tm_mean_frame_difference :: "real option"
  tm_frame_difference_variance :: "real option"

text \<open>The loop over consecutive frames of the history; \<open>None\<close> when a difference raises.\<close>

fun frame_diffs :: "'f cv \<Rightarrow> 'f list \<Rightarrow> real list option" where
  "frame_diffs cv (prv # cur # rest) =
     (case mean_absdiff cv prv cur of
        None \<Rightarrow> None
      | Some mean_diff \<Rightarrow>
          (case frame_diffs cv (cur # rest) of
             None \<Rightarrow> None
           | Some ds \<Rightarrow> Some (mean_diff # ds)))"
| "frame_diffs cv fs = Some []"

definition analyze_temporal_consistency ::
  "'f cv \<Rightarrow> 'f \<Rightarrow> 'f DeepfakeDetector \<Rightarrow> temporal_analysis option \<times> 'f DeepfakeDetector" where
  "analyze_temporal_consistency cv frame d =
     (let d' = d\<lparr>frame_history := push_history (history_size d) (frame_history d) frame\<rparr>
      in if length (frame_history d') < 3 then
           (Some \<lparr>tm_temporal_anomaly = 0, tm_mean_frame_difference = None,
                  tm_frame_difference_variance = None\<rparr>, d')
         else (case frame_diffs cv (frame_history d') of
                 None \<Rightarrow> (None, d')
               | Some fdiffs \<Rightarrow>
                   (let anomaly_score =
                          (if length fdiffs > 1 then np_clip (np_var fdiffs / 1000) 0 1 else 0)
                    in (Some \<lparr>tm_temporal_anomaly = anomaly_score,
                              tm_mean_frame_difference =
                                Some (if fdiffs \<noteq> [] then np_mean fdiffs else 0),
                              tm_frame_difference_variance =
                                Some (if length fdiffs > 0 then np_var fdiffs else 0)\<rparr>, d'))))"

subsection \<open>Frame processing\<close>

datatype frame_indicators =
    NoIndicators
  | IndicatorsError
  | Limited texture_analysis
  | Full texture_analysis blink_analysis geometry_analysis temporal_analysis

record deepfake_result =
  dr_face_detected :: bool
  deepfake_score :: real
  is_likely_deepfake :: "bool option"
  dr_indicators :: frame_indicators

definition df_no_face :: deepfake_result where
  "df_no_face = \<lparr>dr_face_detected = False, deepfake_score = 0, is_likely_deepfake = None,
     dr_indicators = NoIndicators\<rparr>"

definition df_error :: deepfake_result where
  "df_error = \<lparr>dr_face_detected = False, deepfake_score = 0, is_likely_deepfake = None,
     dr_indicators = IndicatorsError\<rparr>"

definition df_landmarks :: "'f cv \<Rightarrow> 'f \<Rightarrow> 'f DeepfakeDetector \<Rightarrow> point list option" where
  "df_landmarks cv frame d =
     (if df_use_mediapipe d then
        (case face_mesh cv frame of
           None \<Rightarrow> None
         | Some lms \<Rightarrow>
             (case frame_shape cv frame of (h, w) \<Rightarrow>
                Some (map (\<lambda>(x, y, z). (x * real w, y * real h, z)) lms)))
      else None)"

text \<open>
  The padded bounding box of the landmarks; \<open>None\<close> when the landmark array is
  empty (the column selection raises).
\<close>

definition face_region_of :: "'f cv \<Rightarrow> 'f \<Rightarrow> point list \<Rightarrow> rect option" where
  "face_region_of cv frame landmarks =
     (if landmarks = [] then None
      else (let x_coords = map fst landmarks;
                y_coords = map (\<lambda>p. fst (snd p)) landmarks;
                x_min = py_int (Min (set x_coords));
                x_max = py_int (Max (set x_coords));
                y_min = py_int (Min (set y_coords));
                y_max = py_int (Max (set y_coords));
                padding = py_int (real_of_int (x_max - x_min) * 0.2);
                x_min' = max 0 (x_min - padding);
                y_min' = max 0 (y_min - padding);
                x_max' = min (int (snd (frame_shape cv frame))) (x_max + padding);
                y_max' = min (int (fst (frame_shape cv frame))) (y_max + padding)
            in Some (x_min', y_min', x_max' - x_min', y_max' - y_min')))"

definition DeepfakeDetector_process_frame ::
  "'f cv \<Rightarrow> 'f \<Rightarrow> 'f DeepfakeDetector \<Rightarrow> deepfake_result \<times> 'f DeepfakeDetector" where
  "DeepfakeDetector_process_frame cv frame d =
     (if frame_empty cv frame then (df_no_face, d)
      else if \<not> length (cascade_faces cv frame) > 0 then (df_no_face, d)
      else if \<not> cvt_rgb cv frame then (df_error, d)
      else
        (case df_landmarks cv frame d of
           None \<Rightarrow>
             (let texture = analyze_micro_textures cv frame None;
                  score = tx_anomaly_score texture * 0.5 + 0.2
              in (\<lparr>dr_face_detected = True, deepfake_score = np_clip score 0 1,
                    is_likely_deepfake = Some (score > 0.6),
                    dr_indicators = Limited texture\<rparr>, d))
         | Some landmarks \<Rightarrow>
             (case face_region_of cv frame landmarks of
                None \<Rightarrow> (df_error, d)
              | Some face_region \<Rightarrow>
                  (let texture = analyze_micro_textures cv frame (Some face_region)
                   in case analyze_blink_patterns landmarks d of
                        (None, d1) \<Rightarrow> (df_error, d1)
                      | (Some blink, d1) \<Rightarrow>
                          (case analyze_face_geometry landmarks d1 of
                             (None, d2) \<Rightarrow> (df_error, d2)
                           | (Some geom, d2) \<Rightarrow>
                               (case analyze_temporal_consistency cv frame d2 of
                                  (None, d3) \<Rightarrow> (df_error, d3)
                                | (Some temporal, d3) \<Rightarrow>
                                    (let score =
                                           tx_anomaly_score texture * 0.35 +
                                           bl_blink_pattern_anomaly blink * 0.25 +
                                           ge_geometry_consistency_score geom * 0.2 +
                                           tm_temporal_anomaly temporal * 0.2
                                     in (\<lparr>dr_face_detected = True,
                                           deepfake_score = np_clip score 0 1,
                                           is_likely_deepfake = Some (score > 0.5),
                                           dr_indicators = Full texture blink geom temporal\<rparr>,
                                         d3))))))))"

text \<open>A session: the frames are processed one after the other by the same detector.\<close>

fun process_frames ::
  "'f cv \<Rightarrow> 'f list \<Rightarrow> 'f DeepfakeDetector \<Rightarrow> 'f DeepfakeDetector" where
  "process_frames cv [] d = d"
| "process_frames cv (f # fs) d = process_frames cv fs (snd (DeepfakeDetector_process_frame cv f d))"

section \<open>Properties and example inputs\<close>

definition unit_interval :: "real \<Rightarrow> bool" where
  "unit_interval x = (0 \<le> x \<and> x \<le> 1)"

text \<open>
  The checks of the adjudicator that an input triggers, in the order of the
  source: alert type, severity and recommendation of each.
\<close>

definition triggered ::
  "deepfake_analysis \<Rightarrow> liveness_analysis \<Rightarrow> (AlertType \<times> AlertSeverity \<times> string) list" where
  "triggered da la =
     (if dget (da_deepfake_score da) 0 > 0.6
      then [(DEEPFAKE_DETECTED,
             determine_alert_severity (dget (da_deepfake_score da) 0)
               (dget (la_liveness_score la) 0) (dget (da_indicators da) no_indicators),
             ''REJECT - Deepfake indicators detected'')]
      else []) @
     (if dget (la_liveness_score la) 0 < 0.5
      then [(LIVENESS_FAILED, HIGH, ''REJECT - Liveness verification failed'')]
      else []) @
     (if \<not> dget (da_face_detected da) False
      then [(FACE_NOT_DETECTED, MEDIUM, ''REJECT - Face not detected'')]
      else [])"

definition active_ids :: "service \<Rightarrow> string list" where
  "active_ids s = map alert_id (get_active_alerts s)"

text \<open>
  The peak of the specification: the largest normalised autocorrelation over the
  lags from 10 up to, not including, \<open>min(50, length)\<close>.
\<close>

definition peak :: "real list \<Rightarrow> real" where
  "peak h = Max ((\<lambda>k. autocorr h k / autocorr h 0) ` {10..<min 50 (length h)})"

definition histories_bounded :: "'f DeepfakeDetector \<Rightarrow> bool" where
  "histories_bounded d =
     (int (length (blink_history d)) \<le> history_size d \<and>
      int (length (face_geometry_history d)) \<le> history_size d \<and>
      int (length (frame_history d)) \<le> history_size d)"

definition liveness_outputs_unit :: "liveness_result \<Rightarrow> bool" where
  "liveness_outputs_unit r =
     (unit_interval (liveness_score r) \<and>
      (case lr_detections r of
         Detections blink move mouth \<Rightarrow>
           unit_interval (snd blink) \<and> unit_interval (fst (snd move)) \<and>
           unit_interval (snd mouth)
       | _ \<Rightarrow> True))"

definition texture_outputs_unit :: "texture_analysis \<Rightarrow> bool" where
  "texture_outputs_unit t =
     (unit_interval (tx_anomaly_score t) \<and> unit_interval (tx_smoothness_score t) \<and>
      unit_interval (tx_boundary_artifacts_confidence t) \<and>
      unit_interval (tx_compression_artifacts_confidence t))"

definition deepfake_outputs_unit :: "deepfake_result \<Rightarrow> bool" where
  "deepfake_outputs_unit r =
     (unit_interval (deepfake_score r) \<and>
      (case dr_indicators r of
         Limited texture \<Rightarrow> texture_outputs_unit texture
       | Full texture blink geom temporal \<Rightarrow>
           texture_outputs_unit texture \<and>
           unit_interval (bl_blink_pattern_anomaly blink) \<and>
           unit_interval (bl_blink_duration_anomaly blink) \<and>
           unit_interval (ge_geometry_consistency_score geom) \<and>
           unit_interval (tm_temporal_anomaly temporal)
       | _ \<Rightarrow> True))"

text \<open>
  One processed frame leaves the capacity as it is and leaves each history as it
  is or pushes one entry onto it.
\<close>

definition same_or_pushed :: "int \<Rightarrow> 'a list \<Rightarrow> 'a list \<Rightarrow> bool" where
  "same_or_pushed n h h' = (h' = h \<or> (\<exists>x. h' = push_history n h x))"

definition step_ok :: "'f DeepfakeDetector \<Rightarrow> 'f DeepfakeDetector \<Rightarrow> bool" where
  "step_ok d d' =
     (history_size d' = history_size d \<and>
      same_or_pushed (history_size d) (blink_history d) (blink_history d') \<and>
      same_or_pushed (history_size d) (face_geometry_history d) (face_geometry_history d') \<and>
      same_or_pushed (history_size d) (frame_history d) (frame_history d'))"

subsection \<open>Example inputs\<close>

definition demo_clk :: "nat \<Rightarrow> string" where
  "demo_clk n = ''2024-01-01T00:00:0'' @ replicate n (CHR ''0'') @ ''1''"

definition demo_fmt :: "real \<Rightarrow> string" where
  "demo_fmt x = ''#.##''"

definition demo_alert :: Alert where
  "demo_alert = \<lparr>alert_id = ''test-session_2024-01-01T00:00:01'', alert_type = FACE_NOT_DETECTED,
     severity = MEDIUM, timestamp = ''2024-01-01T00:00:001'', user_id = None,
     session_id = ''test-session'', message = ''Test alert'', alert_details = OtherDetails,
     status = ''active'', acknowledged_at = None, acknowledged_by = None\<rparr>"

text \<open>The store after one \<open>create_alert\<close>, and after that alert was acknowledged.\<close>

definition one_store :: service where
  "one_store = \<lparr>alerts = [demo_alert], alert_queue = [0], ticks = 2\<rparr>"

definition acked_store :: service where
  "acked_store = \<lparr>alerts = [demo_alert\<lparr>status := ''acknowledged'',
        acknowledged_at := Some ''2024-01-01T00:00:0001'', acknowledged_by := Some ''operator-1''\<rparr>],
      alert_queue = [0], ticks = 3\<rparr>"

text \<open>The inputs of the two tests of the verification flow.\<close>

definition failing_deepfake_analysis :: deepfake_analysis where
  "failing_deepfake_analysis = \<lparr>da_deepfake_score = Some 0.85, da_face_detected = Some True,
     da_indicators = Some no_indicators\<rparr>"

definition failing_liveness_analysis :: liveness_analysis where
  "failing_liveness_analysis = \<lparr>la_liveness_score = Some 0.1, la_face_detected = Some True\<rparr>"

definition passing_deepfake_analysis :: deepfake_analysis where
  "passing_deepfake_analysis = \<lparr>da_deepfake_score = Some 0.2, da_face_detected = Some True,
     da_indicators = Some no_indicators\<rparr>"

definition passing_liveness_analysis :: liveness_analysis where
  "passing_liveness_analysis = \<lparr>la_liveness_score = Some 0.9, la_face_detected = Some True\<rparr>"

definition alternating_history :: "real list" where
  "alternating_history = concat (replicate 10 [0, 1])"

definition noisy_flat_history :: "real list" where
  "noisy_flat_history = replicate 19 (3 / 10) @ [3 / 10 + 1 / 10 ^ 6]"

text \<open>
  Frames of 640 by 480 pixels are numbered: frame 0 is empty, frame 1 shows no
  face, frame 2 shows a face on which the face mesh finds nothing, frame 3 a face
  with landmarks.  The texture measurements are those of a smooth crop of 512 by
  384 pixels; on an empty crop the colour conversion raises.
\<close>

definition demo_landmarks :: "point list" where
  "demo_landmarks = replicate 478 (1 / 2, 1 / 2, 0)"

definition demo_texture_raw :: texture_raw where
  "demo_texture_raw = \<lparr>raw_laplacian_variance = 500, raw_edge_density = 1 / 10,
     raw_median_diff_mean = 51 / 10, raw_crop_shape = (384, 512),
     raw_border_variances = [40, 50, 60, 50], raw_block_artifacts = 196608 / 10\<rparr>"

definition demo_cv :: "nat cv" where
  "demo_cv = \<lparr>frame_empty = (\<lambda>f. f = 0),
     frame_shape = (\<lambda>f. (480, 640)),
     cascade_faces = (\<lambda>f. if 2 \<le> f then [(200, 100, 200, 200)] else []),
     cvt_rgb = (\<lambda>f. True),
     cvt_gray = (\<lambda>f. True),
     face_mesh = (\<lambda>f. if f = 3 then Some demo_landmarks else None),
     median_absdiff = (\<lambda>f g. Some 10),
     gray_col_means = (\<lambda>f. replicate 640 128),
     texture_measure = (\<lambda>f r. case r of (x, y, w, h) \<Rightarrow>
        if w \<le> 0 \<or> h \<le> 0 then None else Some demo_texture_raw),
     mean_absdiff = (\<lambda>f g. Some 1)\<rparr>"

definition new_LivenessDetector :: "bool \<Rightarrow> nat LivenessDetector" where
  "new_LivenessDetector mp =
     \<lparr>confidence_threshold = 0.7, lv_use_mediapipe = mp, prev_frame_landmarks = None\<rparr>"

definition new_DeepfakeDetector :: "bool \<Rightarrow> nat DeepfakeDetector" where
  "new_DeepfakeDetector mp = init_detector 30 mp"

section \<open>Alerting: severity, adjudication and the alert lifecycle\<close>

lemma py_sum_holds: "py_sum bs = holds bs"
  by (induction bs) (simp_all add: py_sum_def holds_def)

text \<open>
  C2.  The severity classifier is the priority cascade of the specification:
  CRITICAL when the deepfake score exceeds 0.85 or at least two critical
  indicators hold, otherwise HIGH when it exceeds 0.75 or at least two high
  indicators hold, otherwise MEDIUM when at least one medium indicator holds,
  otherwise LOW.
\<close>

theorem severity_cascade:
  "determine_alert_severity d l ind = classify_spec d l ind"
  unfolding determine_alert_severity_def classify_spec_def Let_def py_sum_holds
  by (simp only: disj_commute)

theorem severity_cascade_witness:
  "determine_alert_severity (9 / 10) (1 / 10) no_indicators = CRITICAL \<and>
   determine_alert_severity (8 / 10) (4 / 10) no_indicators = HIGH \<and>
   determine_alert_severity (6 / 10) (9 / 10) no_indicators = MEDIUM \<and>
   determine_alert_severity (4 / 10) (8 / 10) no_indicators = LOW"
  unfolding severity_cascade
  by (simp add: classify_spec_def holds_def no_indicators_def dget_def)

text \<open>
  C3.  What the classifier returns on the two inputs of the test
  \<open>test_alert_severity_determination\<close>: on a deepfake score of 0.85, a liveness
  score of 0.1 and no indicators it returns HIGH (the test expects CRITICAL); on
  0.4, 0.8 and no indicators it returns LOW.
\<close>

theorem severity_test_values:
  "determine_alert_severity 0.85 0.1 no_indicators = HIGH \<and>
   determine_alert_severity 0.4 0.8 no_indicators = LOW"
  by (simp add: determine_alert_severity_def no_indicators_def dget_def py_sum_def)

text \<open>
  C1.  The adjudicator runs the three checks one after the other, none of them
  cutting the others short: the alerts of the result are those of the triggered
  checks, in order, with their types and severities; the result is verified with
  status PASSED exactly when no alert was raised, and otherwise is not verified,
  has status FAILED and carries one reject recommendation per triggered check.
  The alerts raised are appended to the store.
\<close>

theorem adjudicator_runs_all_checks:
  "(case evaluate_verification_result clk fmt sid uid da la s of (r, s') \<Rightarrow>
      map (\<lambda>a. (alert_type a, severity a)) (vr_alerts r)
        = map (\<lambda>(t, v, m). (t, v)) (triggered da la) \<and>
      verified r = (vr_alerts r = []) \<and>
      vr_status r = (if vr_alerts r = [] then ''PASSED'' else ''FAILED'') \<and>
      recommendations r =
        (if vr_alerts r = [] then [''APPROVE - Identity verification passed'']
         else map (\<lambda>(t, v, m). m) (triggered da la)) \<and>
      alerts s' = alerts s @ vr_alerts r)"
  unfolding evaluate_verification_result_def check_deepfake_def check_liveness_def check_face_def
    create_alert_def triggered_def Let_def thresholds_deepfake_score_def thresholds_liveness_score_def
  by (simp split: prod.splits)

theorem adjudicator_runs_all_checks_witness:
  "map (\<lambda>a. (alert_type a, severity a))
     (vr_alerts (fst (evaluate_verification_result demo_clk demo_fmt ''test-session''
        (Some ''user-123'') failing_deepfake_analysis failing_liveness_analysis init_service)))
     = [(DEEPFAKE_DETECTED, HIGH), (LIVENESS_FAILED, HIGH)] \<and>
   verified (fst (evaluate_verification_result demo_clk demo_fmt ''test-session''
        (Some ''user-123'') passing_deepfake_analysis passing_liveness_analysis init_service)) \<and>
   vr_alerts (fst (evaluate_verification_result demo_clk demo_fmt ''test-session''
        (Some ''user-123'') passing_deepfake_analysis passing_liveness_analysis init_service)) = []"
proof -
  have f: "triggered failing_deepfake_analysis failing_liveness_analysis =
      [(DEEPFAKE_DETECTED, HIGH, ''REJECT - Deepfake indicators detected''),
       (LIVENESS_FAILED, HIGH, ''REJECT - Liveness verification failed'')]"
    by (simp add: triggered_def failing_deepfake_analysis_def failing_liveness_analysis_def
        dget_def determine_alert_severity_def no_indicators_def py_sum_def)
  have p: "triggered passing_deepfake_analysis passing_liveness_analysis = []"
    by (simp add: triggered_def passing_deepfake_analysis_def passing_liveness_analysis_def
        dget_def)
  show ?thesis
    using adjudicator_runs_all_checks[where clk = demo_clk and fmt = demo_fmt
        and sid = "''test-session''" and uid = "Some ''user-123''"
        and da = failing_deepfake_analysis and la = failing_liveness_analysis
        and s = init_service]
      adjudicator_runs_all_checks[where clk = demo_clk and fmt = demo_fmt
        and sid = "''test-session''" and uid = "Some ''user-123''"
        and da = passing_deepfake_analysis and la = passing_liveness_analysis
        and s = init_service]
    by (simp add: f p split: prod.splits)
qed

lemma find_alert_None: "(find_alert aid as = None) = (aid \<notin> alert_id ` set as)"
  by (induction as) (auto split: option.splits)

lemma find_alert_Some:
  "find_alert aid as = Some i \<Longrightarrow>
     i < length as \<and> alert_id (as ! i) = aid \<and> (\<forall>j<i. alert_id (as ! j) \<noteq> aid)"
proof (induction as arbitrary: i)
  case Nil
  then show ?case by simp
next
  case (Cons a as)
  show ?case
  proof (cases "alert_id a = aid")
    case True
    with Cons.prems show ?thesis by simp
  next
    case False
    with Cons.prems obtain k where k: "find_alert aid as = Some k" "i = Suc k"
      by (auto split: option.splits)
    from Cons.IH[OF k(1)] False k(2) show ?thesis
      by (auto simp: less_Suc_eq_0_disj)
  qed
qed

text \<open>The example stores are reached by creating one alert and acknowledging it.\<close>

lemma one_store_reached:
  "snd (create_alert demo_clk FACE_NOT_DETECTED ''test-session'' MEDIUM ''Test alert''
     OtherDetails None init_service) = one_store"
  by (simp add: create_alert_def one_store_def demo_alert_def demo_clk_def init_service_def
      Let_def)

lemma acked_store_reached:
  "snd (acknowledge_alert demo_clk ''test-session_2024-01-01T00:00:01'' ''operator-1'' one_store)
     = acked_store"
  by (simp add: acknowledge_alert_def one_store_def demo_alert_def demo_clk_def acked_store_def
      eval_nat_numeral)

text \<open>
  C4, as stated, fails: acknowledging succeeds on an alert that is already
  acknowledged, although no active alert with that id is in the store, and it
  overwrites the acknowledger.
\<close>

theorem acknowledge_counterexample:
  "fst (acknowledge_alert demo_clk ''test-session_2024-01-01T00:00:01'' ''operator-2'' acked_store) = True \<and>
   ''test-session_2024-01-01T00:00:01'' \<notin> set (active_ids acked_store) \<and>
   map acknowledged_by (alerts acked_store) = [Some ''operator-1''] \<and>
   map acknowledged_by (alerts (snd (acknowledge_alert demo_clk
      ''test-session_2024-01-01T00:00:01'' ''operator-2'' acked_store))) = [Some ''operator-2'']"
  by (simp add: acknowledge_alert_def acked_store_def demo_alert_def active_ids_def
      get_active_alerts_def)

text \<open>
  C4, amended.  Every alert is created with status active.  Acknowledging succeeds
  exactly when an alert with the given id is in the store, whatever its status;
  it then sets the status of the first such alert to acknowledged and records the
  acknowledger and the time, and leaves the other alerts as they are.  When no
  alert has the id it fails and changes nothing.
\<close>

theorem alert_lifecycle:
  "status (fst (create_alert clk atype sid sev msg det uid s)) = ''active'' \<and>
   (case acknowledge_alert clk aid who s of (ok, s') \<Rightarrow>
      ok = (aid \<in> alert_id ` set (alerts s)) \<and>
      (\<not> ok \<longrightarrow> s' = s) \<and>
      (ok \<longrightarrow> (\<exists>i<length (alerts s). alert_id (alerts s ! i) = aid \<and>
                 (\<forall>j<i. alert_id (alerts s ! j) \<noteq> aid) \<and>
                 alerts s' = (alerts s)[i := (alerts s ! i)\<lparr>status := ''acknowledged'',
                    acknowledged_at := Some (clk (ticks s)), acknowledged_by := Some who\<rparr>])))"
proof -
  have c: "status (fst (create_alert clk atype sid sev msg det uid s)) = ''active''"
    by (simp add: create_alert_def Let_def)
  show ?thesis
  proof (cases "find_alert aid (alerts s)")
    case None
    then show ?thesis using c
      by (simp add: acknowledge_alert_def find_alert_None[symmetric])
  next
    case (Some i)
    from find_alert_Some[OF Some] have "aid \<in> alert_id ` set (alerts s)"
      by (metis imageI nth_mem)
    with Some find_alert_Some[OF Some] c show ?thesis
      by (auto simp: acknowledge_alert_def)
  qed
qed

theorem alert_lifecycle_witness:
  "status (fst (create_alert demo_clk FACE_NOT_DETECTED ''test-session'' MEDIUM ''Test alert''
      OtherDetails None one_store)) = ''active'' \<and>
   fst (acknowledge_alert demo_clk ''test-session_2024-01-01T00:00:01'' ''operator-1'' one_store) = True \<and>
   map status (alerts (snd (acknowledge_alert demo_clk ''test-session_2024-01-01T00:00:01''
      ''operator-1'' one_store))) = [''acknowledged''] \<and>
   acknowledge_alert demo_clk ''no-such-id'' ''operator-1'' one_store = (False, one_store)"
proof -
  note a = alert_lifecycle[where clk = demo_clk and atype = FACE_NOT_DETECTED
      and sid = "''test-session''" and sev = MEDIUM and msg = "''Test alert''"
      and det = OtherDetails and uid = None and s = one_store
      and aid = "''test-session_2024-01-01T00:00:01''" and who = "''operator-1''"]
  note b = alert_lifecycle[where clk = demo_clk and atype = FACE_NOT_DETECTED
      and sid = "''test-session''" and sev = MEDIUM and msg = "''Test alert''"
      and det = OtherDetails and uid = None and s = one_store
      and aid = "''no-such-id''" and who = "''operator-1''"]
  have m: "''test-session_2024-01-01T00:00:01'' \<in> alert_id ` set (alerts one_store)"
    by (simp add: one_store_def demo_alert_def)
  have n: "''no-such-id'' \<notin> alert_id ` set (alerts one_store)"
    by (simp add: one_store_def demo_alert_def)
  have l: "length (alerts one_store) = 1"
    by (simp add: one_store_def)
  from a have 1: "status (fst (create_alert demo_clk FACE_NOT_DETECTED ''test-session'' MEDIUM
      ''Test alert'' OtherDetails None one_store)) = ''active''"
    by simp
  from a m have 2: "fst (acknowledge_alert demo_clk ''test-session_2024-01-01T00:00:01''
      ''operator-1'' one_store) = True"
    by (simp split: prod.splits)
  from a m l have 3: "map status (alerts (snd (acknowledge_alert demo_clk
      ''test-session_2024-01-01T00:00:01'' ''operator-1'' one_store))) = [''acknowledged'']"
    by (auto simp: one_store_def split: prod.splits)
  from b n have 4: "acknowledge_alert demo_clk ''no-such-id'' ''operator-1'' one_store
      = (False, one_store)"
    by (simp split: prod.splits)
  from 1 2 3 4 show ?thesis by simp
qed

section \<open>Liveness detection: neutral results, bounds and the composite score\<close>

lemma np_clip_bounds: "0 \<le> np_clip x 0 1 \<and> np_clip x 0 1 \<le> 1"
  by (simp add: np_clip_def)

lemma np_clip_id: "0 \<le> x \<Longrightarrow> x \<le> 1 \<Longrightarrow> np_clip x 0 1 = x"
  by (simp add: np_clip_def)

lemma detect_blink_bounds: "detect_blink landmarks = (b, c) \<Longrightarrow> 0 \<le> c \<and> c \<le> 1"
  by (auto simp: detect_blink_def Let_def split: option.splits if_splits)

lemma detect_mouth_open_bounds: "detect_mouth_open landmarks = (b, c) \<Longrightarrow> 0 \<le> c \<and> c \<le> 1"
  by (auto simp: detect_mouth_open_def Let_def split: option.splits if_splits)

lemma detect_head_movement_bounds:
  "detect_head_movement cv landmarks s = ((b, c, e), s') \<Longrightarrow> 0 \<le> c \<and> c \<le> 1"
  by (auto simp: detect_head_movement_def Let_def split: option.splits if_splits)

lemma detect_motion_in_frame_bounds:
  "detect_motion_in_frame cv frame s = (m, s') \<Longrightarrow> 0 \<le> m \<and> m \<le> 1"
  by (auto simp: detect_motion_in_frame_def Let_def
      split: option.splits prev_frame.splits if_splits)


lemma detect_blink_snd: "0 \<le> snd (detect_blink l) \<and> snd (detect_blink l) \<le> 1"
  using detect_blink_bounds[of l "fst (detect_blink l)" "snd (detect_blink l)"] by simp

lemma detect_mouth_open_snd: "0 \<le> snd (detect_mouth_open l) \<and> snd (detect_mouth_open l) \<le> 1"
  using detect_mouth_open_bounds[of l "fst (detect_mouth_open l)" "snd (detect_mouth_open l)"]
  by simp

lemma detect_head_movement_conf:
  "0 \<le> fst (snd (fst (detect_head_movement cv l s))) \<and>
   fst (snd (fst (detect_head_movement cv l s))) \<le> 1"
  using detect_head_movement_bounds[of cv l s "fst (fst (detect_head_movement cv l s))"
      "fst (snd (fst (detect_head_movement cv l s)))"
      "snd (snd (fst (detect_head_movement cv l s)))" "snd (detect_head_movement cv l s)"]
  by simp

lemma detect_motion_in_frame_fst:
  "0 \<le> fst (detect_motion_in_frame cv frame s) \<and> fst (detect_motion_in_frame cv frame s) \<le> 1"
  using detect_motion_in_frame_bounds[of cv frame s "fst (detect_motion_in_frame cv frame s)"
      "snd (detect_motion_in_frame cv frame s)"]
  by simp

lemma liveness_unit: "liveness_outputs_unit (fst (LivenessDetector_process_frame cv frame s))"
proof (cases "lv_landmarks cv frame s")
  case None
  then show ?thesis
    unfolding LivenessDetector_process_frame_def Let_def liveness_outputs_unit_def unit_interval_def
    using detect_motion_in_frame_fst[of cv frame s]
    by (simp add: case_prod_beta)
next
  case (Some lms)
  then show ?thesis
    unfolding LivenessDetector_process_frame_def Let_def liveness_outputs_unit_def unit_interval_def
    using detect_blink_snd[of "Some lms"] detect_mouth_open_snd[of "Some lms"]
      detect_head_movement_conf[of cv "Some lms" s]
    by (simp add: case_prod_beta)
qed

text \<open>
  C10.  On a landmark array of fewer than 400 points, the empty array and \<open>None\<close>
  included, the blink detector and the mouth-open detector both return the
  neutral result: not detected, confidence 0.  The models are total: the
  exceptions of the source are branches that return this same neutral result.
\<close>

theorem neutral_on_short_landmarks:
  "(case landmarks of None \<Rightarrow> True | Some lms \<Rightarrow> length lms < 400) \<Longrightarrow>
   detect_blink landmarks = (False, 0) \<and> detect_mouth_open landmarks = (False, 0)"
  by (auto simp: detect_blink_def detect_mouth_open_def split: option.splits)

text \<open>
  C6.  The result of \<open>process_frame\<close> is determined by the detectors run on the
  frame.  With landmarks, the liveness score is 0.3 times the confidence of
  \<open>detect_blink\<close> plus 0.4 times that of \<open>detect_head_movement\<close> plus 0.3 times
  that of \<open>detect_mouth_open\<close>.  Without landmarks, the blink and mouth
  confidences are 0 and the movement confidence is that of
  \<open>detect_motion_in_frame\<close>, and the score is raised to at least 0.5 when a face
  rectangle was detected.  In both cases \<open>is_likely_live\<close> tells whether the score
  exceeds the confidence threshold, and the result reports the confidences the
  score was computed from.  On an empty frame, and when the colour conversion
  fails, the score is 0 and the flag is absent.
\<close>

theorem liveness_score_formula:
  "(frame_empty cv frame \<longrightarrow>
      LivenessDetector_process_frame cv frame s =
        (\<lparr>lr_face_detected = False, liveness_score = 0, is_likely_live = None,
          lr_detections = NoDetections\<rparr>, s)) \<and>
   (\<not> frame_empty cv frame \<and> \<not> cvt_rgb cv frame \<longrightarrow>
      LivenessDetector_process_frame cv frame s =
        (\<lparr>lr_face_detected = False, liveness_score = 0, is_likely_live = None,
          lr_detections = DetectionsError\<rparr>, s)) \<and>
   (\<not> frame_empty cv frame \<and> cvt_rgb cv frame \<and> lv_landmarks cv frame s = Some lms \<and>
    detect_blink (Some lms) = (blink_detected, blink_conf) \<and>
    detect_head_movement cv (Some lms) s = ((move_detected, move_conf, move_details), s1) \<and>
    detect_mouth_open (Some lms) = (mouth_open, mouth_conf) \<longrightarrow>
      LivenessDetector_process_frame cv frame s =
        (\<lparr>lr_face_detected = (cascade_faces cv frame \<noteq> []),
          liveness_score = 0.3 * blink_conf + 0.4 * move_conf + 0.3 * mouth_conf,
          is_likely_live =
            Some (0.3 * blink_conf + 0.4 * move_conf + 0.3 * mouth_conf > confidence_threshold s),
          lr_detections = Detections (blink_detected, blink_conf)
            (move_detected, move_conf, move_details) (mouth_open, mouth_conf)\<rparr>, s1)) \<and>
   (\<not> frame_empty cv frame \<and> cvt_rgb cv frame \<and> lv_landmarks cv frame s = None \<and>
    detect_motion_in_frame cv frame s = (motion, s2) \<longrightarrow>
      LivenessDetector_process_frame cv frame s =
        (\<lparr>lr_face_detected = (cascade_faces cv frame \<noteq> []),
          liveness_score =
            (if cascade_faces cv frame \<noteq> [] then max (0.3 * 0 + 0.4 * motion + 0.3 * 0) 0.5
             else 0.3 * 0 + 0.4 * motion + 0.3 * 0),
          is_likely_live =
            Some ((if cascade_faces cv frame \<noteq> [] then max (0.3 * 0 + 0.4 * motion + 0.3 * 0) 0.5
                   else 0.3 * 0 + 0.4 * motion + 0.3 * 0) > confidence_threshold s),
          lr_detections = Detections (False, 0) (False, motion, Reason ''motion_fallback'')
            (False, 0)\<rparr>, s2)) \<and>
   (case LivenessDetector_process_frame cv frame s of (r, s') \<Rightarrow>
      (case lr_detections r of
         Detections blink move mouth \<Rightarrow>
           liveness_score r =
             (if lv_landmarks cv frame s = None \<and> lr_face_detected r
              then max (0.3 * snd blink + 0.4 * fst (snd move) + 0.3 * snd mouth) 0.5
              else 0.3 * snd blink + 0.4 * fst (snd move) + 0.3 * snd mouth) \<and>
           is_likely_live r = Some (liveness_score r > confidence_threshold s) \<and>
           lr_face_detected r = (cascade_faces cv frame \<noteq> [])
       | _ \<Rightarrow> liveness_score r = 0 \<and> is_likely_live r = None \<and> \<not> lr_face_detected r \<and> s' = s))"
  (is "?empty \<and> ?error \<and> ?landmarks \<and> ?fallback \<and> ?shape")
proof -
  have 1: ?empty
    by (simp add: LivenessDetector_process_frame_def)
  have 2: ?error
    by (simp add: LivenessDetector_process_frame_def Let_def)
  have 3: ?landmarks
    by (simp add: LivenessDetector_process_frame_def Let_def mult.commute)
  have 4: ?fallback
    by (simp add: LivenessDetector_process_frame_def Let_def mult.commute)
  have 5: ?shape
    unfolding LivenessDetector_process_frame_def Let_def
    by (simp split: prod.splits add: mult.commute)
  from 1 2 3 4 5 show ?thesis by blast
qed


section \<open>Deepfake detection: blink periodicity\<close>


lemma sumsq_nonneg: "0 \<le> sum_list (map (\<lambda>a. a * a) (xs :: real list))"
  by (induction xs) simp_all

lemma zip_prod_le:
  "2 * sum_list (map (\<lambda>(a, b). a * b) (zip xs ys))
     \<le> sum_list (map (\<lambda>a. a * a) xs) + sum_list (map (\<lambda>b. b * b) (ys :: real list))"
proof (induction xs arbitrary: ys)
  case Nil
  show ?case using sumsq_nonneg[of ys] by simp
next
  case (Cons x xs)
  show ?case
  proof (cases ys)
    case Nil
    then show ?thesis using sumsq_nonneg[of "x # xs"] by simp
  next
    case (Cons y ys')
    have "2 * (x * y) \<le> x * x + y * y"
      using sum_squares_bound[of x y] by (simp add: power2_eq_square)
    with Cons.IH[of ys'] Cons show ?thesis by (simp add: algebra_simps)
  qed
qed

lemma sumsq_drop:
  "sum_list (map (\<lambda>a. a * a) (drop k xs)) \<le> sum_list (map (\<lambda>a. a * a) (xs :: real list))"
proof -
  have "sum_list (map (\<lambda>a. a * a) xs)
      = sum_list (map (\<lambda>a. a * a) (take k xs)) + sum_list (map (\<lambda>a. a * a) (drop k xs))"
    by (metis append_take_drop_id map_append sum_list.append)
  with sumsq_nonneg[of "take k xs"] show ?thesis by simp
qed

lemma autocorr_0: "autocorr xs 0 = sum_list (map (\<lambda>a. a * a) xs)"
  by (induction xs) (simp_all add: autocorr_def)

lemma autocorr_le: "autocorr xs k \<le> autocorr xs 0"
proof -
  have "2 * autocorr xs k
      \<le> sum_list (map (\<lambda>a. a * a) xs) + sum_list (map (\<lambda>a. a * a) (drop k xs))"
    using zip_prod_le[of xs "drop k xs"] by (simp add: autocorr_def)
  with sumsq_drop[of k xs] show ?thesis
    unfolding autocorr_0 by linarith
qed

lemma autocorr_0_nonneg: "0 \<le> autocorr xs 0"
  by (simp add: autocorr_0 sumsq_nonneg)

lemma normalized_le_1: "autocorr xs k / autocorr xs 0 \<le> 1"
  using autocorr_le[of xs k] autocorr_0_nonneg[of xs]
  by (cases "autocorr xs 0 = 0") (simp_all add: divide_le_eq_1)

lemma correlation_slice:
  assumes "20 \<le> length h"
  shows "py_slice (map (\<lambda>c. c / (correlation_half h ! 0)) (correlation_half h)) 10
      (min 50 (length (correlation_half h)))
   = map (\<lambda>k. autocorr h k / autocorr h 0) [10..<min 50 (length h)]"
proof -
  from assms have "h \<noteq> []" by auto
  then have c0: "correlation_half h ! 0 = autocorr h 0"
    by (simp add: correlation_half_def)
  have "drop 10 (take (min 50 (length h)) [0..<length h]) = [10..<min 50 (length h)]"
    by (simp add: take_upt)
  then show ?thesis
    unfolding py_slice_def c0
    by (simp add: correlation_half_def take_map drop_map)
qed

lemma np_max_Max: "xs \<noteq> [] \<Longrightarrow> np_max xs = Some (Max (set xs))"
proof (cases xs)
  case Nil
  assume "xs \<noteq> []"
  with Nil show ?thesis by simp
next
  case (Cons a l)
  have "Max (set (a # l)) = fold max l a" by (rule Max.set_eq_fold)
  with Cons show ?thesis by (simp del: set_simps)
qed

lemma np_max_slice:
  assumes "20 \<le> length h"
  shows "np_max (map (\<lambda>k. autocorr h k / autocorr h 0) [10..<min 50 (length h)]) = Some (peak h)"
proof -
  from assms have "[10..<min 50 (length h)] \<noteq> []" by (auto simp: min_def)
  then show ?thesis by (simp add: np_max_Max peak_def)
qed

lemma peak_le_1:
  assumes "20 \<le> length h"
  shows "peak h \<le> 1"
proof -
  from assms have "{10..<min 50 (length h)} \<noteq> {}" by simp
  then show ?thesis
    unfolding peak_def by (simp add: normalized_le_1)
qed

lemma flat_guard_iff: "(np_std xs < 1 / 10 ^ 6) = (np_var xs < 1 / 10 ^ 12)"
proof -
  have "sqrt (1 / 10 ^ 12) = (1 / 10 ^ 6 :: real)"
    by (rule real_sqrt_unique) (simp_all add: power2_eq_square)
  then have "(sqrt (np_var xs) < 1 / 10 ^ 6) = (sqrt (np_var xs) < sqrt (1 / 10 ^ 12))"
    by (simp only:)
  then show ?thesis unfolding np_std_def by (simp only: real_sqrt_less_iff)
qed

lemma np_mean_replicate: "0 < n \<Longrightarrow> np_mean (replicate n c) = c"
  by (simp add: np_mean_def sum_list_replicate)

lemma np_var_replicate: "np_var (replicate n c) = 0"
  by (cases "n = 0") (simp_all add: np_var_def np_mean_replicate, simp add: np_mean_def)

lemma anomaly_small: "detect_blink_pattern_anomaly h = Some 0" if "length h < 20"
  using that by (simp add: detect_blink_pattern_anomaly_def)

lemma anomaly_flat:
  "20 \<le> length h \<Longrightarrow> np_std h < 1 / 10 ^ 6 \<Longrightarrow> detect_blink_pattern_anomaly h = Some 1"
  by (simp add: detect_blink_pattern_anomaly_def)

lemma anomaly_peak:
  assumes "20 \<le> length h" "\<not> np_std h < 1 / 10 ^ 6"
  shows "detect_blink_pattern_anomaly h = Some (np_clip (peak h - 0.5) 0 1)"
proof -
  from assms have "detect_blink_pattern_anomaly h =
      (case np_max (py_slice (map (\<lambda>c. c / (correlation_half h ! 0)) (correlation_half h)) 10
          (min 50 (length (correlation_half h)))) of
         None \<Rightarrow> None | Some p \<Rightarrow> Some (np_clip (p - 0.5) 0 1))"
    by (simp add: detect_blink_pattern_anomaly_def Let_def)
  also have "\<dots> = Some (np_clip (peak h - 0.5) 0 1)"
    using assms(1) by (simp only: correlation_slice np_max_slice option.case)
  finally show ?thesis .
qed

text \<open>
  C9, amended.  The blink-periodicity anomaly is 0 on a history of fewer than 20
  samples.  On a history of at least 20 samples it is 1 when the standard
  deviation is below \<open>1e-6\<close> (the flat guard of the source), in particular on a
  perfectly constant history; otherwise it is \<open>clip(peak - 0.5, 0, 1)\<close>, where the
  peak is the largest normalised autocorrelation over the lags from 10 up to
  \<open>min(50, length)\<close>, and then it is at most 0.5, so strictly below 1.  The
  computation always returns: the slice handed to \<open>np.max\<close> is never empty.
\<close>

theorem blink_pattern_anomaly_cases:
  "(length h < 20 \<longrightarrow> detect_blink_pattern_anomaly h = Some 0) \<and>
   (20 \<le> length h \<and> np_std h < 1 / 10 ^ 6 \<longrightarrow> detect_blink_pattern_anomaly h = Some 1) \<and>
   (20 \<le> length h \<and> \<not> np_std h < 1 / 10 ^ 6 \<longrightarrow>
      detect_blink_pattern_anomaly h = Some (np_clip (peak h - 0.5) 0 1) \<and>
      np_clip (peak h - 0.5) 0 1 \<le> 0.5) \<and>
   (20 \<le> n \<longrightarrow> detect_blink_pattern_anomaly (replicate n c) = Some 1)"
proof -
  have "np_std (replicate n c) < 1 / 10 ^ 6"
    unfolding flat_guard_iff np_var_replicate by simp
  then have flat: "detect_blink_pattern_anomaly (replicate n c) = Some 1" if "20 \<le> n"
    using that by (intro anomaly_flat) simp_all
  have half: "np_clip (peak h - 0.5) 0 1 \<le> 0.5" if "20 \<le> length h"
    using peak_le_1[OF that] unfolding np_clip_def by linarith
  show ?thesis
    using anomaly_small anomaly_flat anomaly_peak flat half by blast
qed

lemma noisy_var: "np_var noisy_flat_history = 19 / (4 * 10 ^ 14)"
  by (simp add: noisy_flat_history_def np_var_def np_mean_def sum_list_replicate field_simps)

lemma noisy_guard: "np_std noisy_flat_history < 1 / 10 ^ 6"
  unfolding flat_guard_iff noisy_var by simp

text \<open>
  C9, as stated, fails: a history of 20 samples of non-zero variance whose
  standard deviation is below the flat guard has anomaly 1, not less.
\<close>

theorem blink_pattern_anomaly_counterexample:
  "np_var noisy_flat_history \<noteq> 0 \<and> detect_blink_pattern_anomaly noisy_flat_history = Some 1"
proof -
  note noisy_guard
  then show ?thesis
    by (simp add: noisy_var detect_blink_pattern_anomaly_def) (simp add: noisy_flat_history_def)
qed

lemma alt_var: "np_var alternating_history = 1 / 4"
  by (simp add: alternating_history_def np_var_def np_mean_def eval_nat_numeral)

theorem blink_pattern_anomaly_cases_witness:
  "detect_blink_pattern_anomaly [] = Some 0 \<and>
   detect_blink_pattern_anomaly (replicate 20 (3 / 10)) = Some 1 \<and>
   detect_blink_pattern_anomaly noisy_flat_history = Some 1 \<and>
   detect_blink_pattern_anomaly alternating_history
     = Some (np_clip (peak alternating_history - 0.5) 0 1) \<and>
   np_clip (peak alternating_history - 0.5) 0 1 \<le> 0.5"
proof -
  have l: "length alternating_history = 20"
    by (simp add: alternating_history_def eval_nat_numeral)
  have s: "\<not> np_std alternating_history < 1 / 10 ^ 6"
    unfolding flat_guard_iff alt_var by simp
  have n: "length noisy_flat_history = 20"
    by (simp add: noisy_flat_history_def)
  show ?thesis
    using blink_pattern_anomaly_cases[of "[]" 20 "3 / 10"]
      blink_pattern_anomaly_cases[of alternating_history 20 "3 / 10"]
      blink_pattern_anomaly_cases[of noisy_flat_history 20 "3 / 10"] l s n noisy_guard
    by simp
qed


section \<open>Deepfake detection: bounds and the composite score\<close>



lemma texture_unit: "texture_outputs_unit (analyze_micro_textures cv frame region)"
  by (simp add: analyze_micro_textures_def texture_outputs_unit_def texture_fallback_def
      analyze_smoothness_def detect_boundary_artifacts_def detect_compression_artifacts_def
      compute_texture_anomaly_score_def Let_def np_clip_bounds unit_interval_def
      split: option.splits prod.splits)

lemma texture_anomaly_bounds:
  "0 \<le> tx_anomaly_score (analyze_micro_textures cv frame region) \<and>
   tx_anomaly_score (analyze_micro_textures cv frame region) \<le> 1"
  using texture_unit[of cv frame region]
  by (simp add: texture_outputs_unit_def unit_interval_def)

lemma pattern_anomaly_bounds:
  "detect_blink_pattern_anomaly h = Some v \<Longrightarrow> 0 \<le> v \<and> v \<le> 1"
  by (auto simp: detect_blink_pattern_anomaly_def Let_def np_clip_bounds
      split: if_splits option.splits)

lemma duration_anomaly_bounds:
  "0 \<le> detect_blink_duration_anomaly h \<and> detect_blink_duration_anomaly h \<le> 1"
  by (simp add: detect_blink_duration_anomaly_def Let_def np_clip_bounds)

lemma blink_analysis_bounds:
  "analyze_blink_patterns lms d = (Some b, d') \<Longrightarrow>
   0 \<le> bl_blink_pattern_anomaly b \<and> bl_blink_pattern_anomaly b \<le> 1 \<and>
   0 \<le> bl_blink_duration_anomaly b \<and> bl_blink_duration_anomaly b \<le> 1"
  by (auto simp: analyze_blink_patterns_def Let_def duration_anomaly_bounds
      split: option.splits dest: pattern_anomaly_bounds)

lemma geometry_consistency_bounds:
  "0 \<le> analyze_geometry_consistency h \<and> analyze_geometry_consistency h \<le> 1"
  by (simp add: analyze_geometry_consistency_def Let_def np_clip_bounds)

lemma geometry_analysis_bounds:
  "analyze_face_geometry lms d = (Some g, d') \<Longrightarrow>
   0 \<le> ge_geometry_consistency_score g \<and> ge_geometry_consistency_score g \<le> 1"
  by (auto simp: analyze_face_geometry_def Let_def geometry_consistency_bounds
      split: option.splits)

lemma temporal_analysis_bounds:
  "analyze_temporal_consistency cv frame d = (Some t, d') \<Longrightarrow>
   0 \<le> tm_temporal_anomaly t \<and> tm_temporal_anomaly t \<le> 1"
  by (auto simp: analyze_temporal_consistency_def Let_def np_clip_bounds
      split: option.splits if_splits)

lemma process_frame_cases:
  obtains
    (none) "DeepfakeDetector_process_frame cv frame d = (df_no_face, d)"
  | (error) d' where "DeepfakeDetector_process_frame cv frame d = (df_error, d')"
      "d' = d \<or> (\<exists>lms.
          d' = snd (analyze_blink_patterns lms d) \<or>
          d' = snd (analyze_face_geometry lms (snd (analyze_blink_patterns lms d))) \<or>
          d' = snd (analyze_temporal_consistency cv frame
                 (snd (analyze_face_geometry lms (snd (analyze_blink_patterns lms d))))))"
  | (limited) "df_landmarks cv frame d = None"
      "DeepfakeDetector_process_frame cv frame d =
        (\<lparr>dr_face_detected = True,
          deepfake_score = np_clip (tx_anomaly_score (analyze_micro_textures cv frame None) * 0.5 + 0.2) 0 1,
          is_likely_deepfake = Some (tx_anomaly_score (analyze_micro_textures cv frame None) * 0.5 + 0.2 > 0.6),
          dr_indicators = Limited (analyze_micro_textures cv frame None)\<rparr>, d)"
  | (full) lms region b d1 g d2 t d3 where
      "df_landmarks cv frame d = Some lms"
      "face_region_of cv frame lms = Some region"
      "analyze_blink_patterns lms d = (Some b, d1)"
      "analyze_face_geometry lms d1 = (Some g, d2)"
      "analyze_temporal_consistency cv frame d2 = (Some t, d3)"
      "DeepfakeDetector_process_frame cv frame d =
        (\<lparr>dr_face_detected = True,
          deepfake_score = np_clip (tx_anomaly_score (analyze_micro_textures cv frame (Some region)) * 0.35 +
             bl_blink_pattern_anomaly b * 0.25 + ge_geometry_consistency_score g * 0.2 +
             tm_temporal_anomaly t * 0.2) 0 1,
          is_likely_deepfake = Some (tx_anomaly_score (analyze_micro_textures cv frame (Some region)) * 0.35 +
             bl_blink_pattern_anomaly b * 0.25 + ge_geometry_consistency_score g * 0.2 +
             tm_temporal_anomaly t * 0.2 > 0.5),
          dr_indicators = Full (analyze_micro_textures cv frame (Some region)) b g t\<rparr>, d3)"
proof (cases "frame_empty cv frame \<or> cascade_faces cv frame = []")
  case True
  then have "DeepfakeDetector_process_frame cv frame d = (df_no_face, d)"
    by (auto simp: DeepfakeDetector_process_frame_def)
  then show thesis by (rule none)
next
  case nf: False
  show thesis
  proof (cases "cvt_rgb cv frame")
    case False
    with nf have "DeepfakeDetector_process_frame cv frame d = (df_error, d)"
      by (simp add: DeepfakeDetector_process_frame_def)
    then show thesis by (rule error) simp
  next
    case rgb: True
    show thesis
    proof (cases "df_landmarks cv frame d")
      case None
      with nf rgb have "DeepfakeDetector_process_frame cv frame d =
        (\<lparr>dr_face_detected = True,
          deepfake_score = np_clip (tx_anomaly_score (analyze_micro_textures cv frame None) * 0.5 + 0.2) 0 1,
          is_likely_deepfake = Some (tx_anomaly_score (analyze_micro_textures cv frame None) * 0.5 + 0.2 > 0.6),
          dr_indicators = Limited (analyze_micro_textures cv frame None)\<rparr>, d)"
        by (simp add: DeepfakeDetector_process_frame_def Let_def)
      with None show thesis by (intro limited)
    next
      case lms: (Some lms)
      show thesis
      proof (cases "face_region_of cv frame lms")
        case None
        with nf rgb lms have "DeepfakeDetector_process_frame cv frame d = (df_error, d)"
          by (simp add: DeepfakeDetector_process_frame_def)
        then show thesis by (rule error) simp
      next
        case region: (Some region)
        obtain ob d1 where b: "analyze_blink_patterns lms d = (ob, d1)"
          by (cases "analyze_blink_patterns lms d")
        show thesis
        proof (cases ob)
          case None
          with nf rgb lms region b
          have e: "DeepfakeDetector_process_frame cv frame d = (df_error, d1)"
            by (simp add: DeepfakeDetector_process_frame_def Let_def)
          from b have "d1 = snd (analyze_blink_patterns lms d)" by simp
          then show thesis by (intro error[OF e]) blast
        next
          case sb: (Some bl)
          obtain og d2 where g: "analyze_face_geometry lms d1 = (og, d2)"
            by (cases "analyze_face_geometry lms d1")
          show thesis
          proof (cases og)
            case None
            with nf rgb lms region b sb g
            have e: "DeepfakeDetector_process_frame cv frame d = (df_error, d2)"
              by (simp add: DeepfakeDetector_process_frame_def Let_def)
            from b g
            have "d2 = snd (analyze_face_geometry lms (snd (analyze_blink_patterns lms d)))"
              by simp
            then show thesis by (intro error[OF e]) blast
          next
            case sg: (Some ge)
            obtain ot d3 where t: "analyze_temporal_consistency cv frame d2 = (ot, d3)"
              by (cases "analyze_temporal_consistency cv frame d2")
            show thesis
            proof (cases ot)
              case None
              with nf rgb lms region b sb g sg t
              have e: "DeepfakeDetector_process_frame cv frame d = (df_error, d3)"
                by (simp add: DeepfakeDetector_process_frame_def Let_def)
              from b g t
              have "d3 = snd (analyze_temporal_consistency cv frame
                  (snd (analyze_face_geometry lms (snd (analyze_blink_patterns lms d)))))"
                by simp
              then show thesis by (intro error[OF e]) blast
            next
              case st: (Some te)
              from nf rgb lms region b sb g sg t st
              have "DeepfakeDetector_process_frame cv frame d =
                (\<lparr>dr_face_detected = True,
                  deepfake_score = np_clip (tx_anomaly_score (analyze_micro_textures cv frame (Some region)) * 0.35 +
                     bl_blink_pattern_anomaly bl * 0.25 + ge_geometry_consistency_score ge * 0.2 +
                     tm_temporal_anomaly te * 0.2) 0 1,
                  is_likely_deepfake = Some (tx_anomaly_score (analyze_micro_textures cv frame (Some region)) * 0.35 +
                     bl_blink_pattern_anomaly bl * 0.25 + ge_geometry_consistency_score ge * 0.2 +
                     tm_temporal_anomaly te * 0.2 > 0.5),
                  dr_indicators = Full (analyze_micro_textures cv frame (Some region)) bl ge te\<rparr>, d3)"
                by (simp add: DeepfakeDetector_process_frame_def Let_def)
              with lms region b sb g sg t st show thesis
                by (intro full[of lms region bl d1 ge d2 te d3]) simp_all
            qed
          qed
        qed
      qed
    qed
  qed
qed

lemma deepfake_unit: "deepfake_outputs_unit (fst (DeepfakeDetector_process_frame cv frame d))"
proof (cases cv frame d rule: process_frame_cases)
  case none
  then show ?thesis
    by (simp add: deepfake_outputs_unit_def df_no_face_def unit_interval_def)
next
  case (error d')
  then show ?thesis
    by (simp add: deepfake_outputs_unit_def df_error_def unit_interval_def)
next
  case limited
  then show ?thesis
    using np_clip_bounds texture_unit[of cv frame None]
    by (simp add: deepfake_outputs_unit_def unit_interval_def)
next
  case (full lms region b d1 g d2 t d3)
  then show ?thesis
    using np_clip_bounds texture_unit[of cv frame "Some region"]
      blink_analysis_bounds[OF full(3)] geometry_analysis_bounds[OF full(4)]
      temporal_analysis_bounds[OF full(5)]
    by (simp add: deepfake_outputs_unit_def unit_interval_def)
qed

text \<open>
  C8.  For every frame and every state of the detectors, each signal and score of
  the result of a processed frame lies in the closed interval from 0 to 1: the
  blink, movement and mouth confidences and the liveness score; the texture
  anomaly (with the smoothness, boundary and compression scores), the blink
  periodicity and duration anomalies, the geometry and temporal anomalies and the
  deepfake score.
\<close>

theorem frame_outputs_in_unit_interval:
  "liveness_outputs_unit (fst (LivenessDetector_process_frame cv frame s)) \<and>
   deepfake_outputs_unit (fst (DeepfakeDetector_process_frame cv frame d))"
  by (simp add: liveness_unit deepfake_unit)

text \<open>
  C5, amended.  The result of \<open>process_frame\<close> is determined by the analyses run
  on the frame.  On a frame with a face and landmarks, when the four analyses
  return, the deepfake score is 0.35 times the anomaly score of
  \<open>analyze_micro_textures\<close> on the face region plus 0.25 times the blink pattern
  anomaly of \<open>analyze_blink_patterns\<close> plus 0.2 times the consistency score of
  \<open>analyze_face_geometry\<close> plus 0.2 times the temporal anomaly of
  \<open>analyze_temporal_consistency\<close>, and the flag \<open>is_likely_deepfake\<close> tells whether
  the score exceeds 0.5.  On a frame with a face and no landmarks the score is 0.5
  times the anomaly score of \<open>analyze_micro_textures\<close> on the central crop plus
  0.2, and the flag tells whether the score exceeds 0.6.  The result reports the
  sub-scores the score was computed from.  In every other case no face is
  reported, the score is 0 and the flag is absent.
\<close>

theorem deepfake_score_formula:
  "(frame_empty cv frame \<or> cascade_faces cv frame = [] \<longrightarrow>
      DeepfakeDetector_process_frame cv frame d = (df_no_face, d)) \<and>
   (\<not> frame_empty cv frame \<and> cascade_faces cv frame \<noteq> [] \<and> cvt_rgb cv frame \<and>
    df_landmarks cv frame d = None \<longrightarrow>
      DeepfakeDetector_process_frame cv frame d =
        (\<lparr>dr_face_detected = True,
          deepfake_score = 0.5 * tx_anomaly_score (analyze_micro_textures cv frame None) + 0.2,
          is_likely_deepfake =
            Some (0.5 * tx_anomaly_score (analyze_micro_textures cv frame None) + 0.2 > 0.6),
          dr_indicators = Limited (analyze_micro_textures cv frame None)\<rparr>, d)) \<and>
   (\<not> frame_empty cv frame \<and> cascade_faces cv frame \<noteq> [] \<and> cvt_rgb cv frame \<and>
    df_landmarks cv frame d = Some lms \<and> face_region_of cv frame lms = Some region \<and>
    analyze_blink_patterns lms d = (Some blink, d1) \<and>
    analyze_face_geometry lms d1 = (Some geom, d2) \<and>
    analyze_temporal_consistency cv frame d2 = (Some temporal, d3) \<longrightarrow>
      DeepfakeDetector_process_frame cv frame d =
        (\<lparr>dr_face_detected = True,
          deepfake_score =
            0.35 * tx_anomaly_score (analyze_micro_textures cv frame (Some region)) +
            0.25 * bl_blink_pattern_anomaly blink +
            0.2 * ge_geometry_consistency_score geom + 0.2 * tm_temporal_anomaly temporal,
          is_likely_deepfake =
            Some (0.35 * tx_anomaly_score (analyze_micro_textures cv frame (Some region)) +
                  0.25 * bl_blink_pattern_anomaly blink +
                  0.2 * ge_geometry_consistency_score geom +
                  0.2 * tm_temporal_anomaly temporal > 0.5),
          dr_indicators = Full (analyze_micro_textures cv frame (Some region)) blink geom temporal\<rparr>,
         d3)) \<and>
   (case DeepfakeDetector_process_frame cv frame d of (r, d') \<Rightarrow>
      (case dr_indicators r of
         Full texture blink geom temporal \<Rightarrow>
           dr_face_detected r \<and> df_landmarks cv frame d \<noteq> None \<and>
           deepfake_score r =
             0.35 * tx_anomaly_score texture + 0.25 * bl_blink_pattern_anomaly blink +
             0.2 * ge_geometry_consistency_score geom + 0.2 * tm_temporal_anomaly temporal \<and>
           is_likely_deepfake r = Some (deepfake_score r > 0.5)
       | Limited texture \<Rightarrow>
           dr_face_detected r \<and> df_landmarks cv frame d = None \<and>
           deepfake_score r = 0.5 * tx_anomaly_score texture + 0.2 \<and>
           is_likely_deepfake r = Some (deepfake_score r > 0.6)
       | _ \<Rightarrow> \<not> dr_face_detected r \<and> deepfake_score r = 0 \<and> is_likely_deepfake r = None))"
  (is "?none \<and> ?limited \<and> ?full \<and> ?shape")
proof -
  have lim: "np_clip (tx_anomaly_score (analyze_micro_textures cv frame None) * 0.5 + 0.2) 0 1
      = tx_anomaly_score (analyze_micro_textures cv frame None) * 0.5 + 0.2"
    using texture_anomaly_bounds[of cv frame None] by (intro np_clip_id) simp_all
  have clipf: "np_clip (tx_anomaly_score (analyze_micro_textures cv frame (Some r)) * 0.35 +
        bl_blink_pattern_anomaly b * 0.25 + ge_geometry_consistency_score g * 0.2 +
        tm_temporal_anomaly t * 0.2) 0 1
      = tx_anomaly_score (analyze_micro_textures cv frame (Some r)) * 0.35 +
        bl_blink_pattern_anomaly b * 0.25 + ge_geometry_consistency_score g * 0.2 +
        tm_temporal_anomaly t * 0.2"
    if "analyze_blink_patterns l d = (Some b, e1)"
      "analyze_face_geometry l e1 = (Some g, e2)"
      "analyze_temporal_consistency cv frame e2 = (Some t, e3)"
    for r b g t l e1 e2 e3
    using texture_anomaly_bounds[of cv frame "Some r"] blink_analysis_bounds[OF that(1)]
      geometry_analysis_bounds[OF that(2)] temporal_analysis_bounds[OF that(3)]
    by (intro np_clip_id) simp_all
  have 1: ?none
    by (auto simp: DeepfakeDetector_process_frame_def)
  have 2: ?limited
    using lim by (simp add: DeepfakeDetector_process_frame_def Let_def)
  have 3: ?full
  proof (intro impI, elim conjE)
    assume h: "\<not> frame_empty cv frame" "cascade_faces cv frame \<noteq> []" "cvt_rgb cv frame"
      "df_landmarks cv frame d = Some lms" "face_region_of cv frame lms = Some region"
      "analyze_blink_patterns lms d = (Some blink, d1)"
      "analyze_face_geometry lms d1 = (Some geom, d2)"
      "analyze_temporal_consistency cv frame d2 = (Some temporal, d3)"
    from clipf[OF h(6,7,8), of region] h
    show "DeepfakeDetector_process_frame cv frame d =
        (\<lparr>dr_face_detected = True,
          deepfake_score =
            0.35 * tx_anomaly_score (analyze_micro_textures cv frame (Some region)) +
            0.25 * bl_blink_pattern_anomaly blink +
            0.2 * ge_geometry_consistency_score geom + 0.2 * tm_temporal_anomaly temporal,
          is_likely_deepfake =
            Some (0.35 * tx_anomaly_score (analyze_micro_textures cv frame (Some region)) +
                  0.25 * bl_blink_pattern_anomaly blink +
                  0.2 * ge_geometry_consistency_score geom +
                  0.2 * tm_temporal_anomaly temporal > 0.5),
          dr_indicators = Full (analyze_micro_textures cv frame (Some region)) blink geom temporal\<rparr>,
         d3)"
      by (simp add: DeepfakeDetector_process_frame_def Let_def)
  qed
  have 4: ?shape
  proof (cases cv frame d rule: process_frame_cases)
    case none
    then show ?thesis by (simp add: df_no_face_def)
  next
    case (error d')
    then show ?thesis by (simp add: df_error_def)
  next
    case limited
    with lim show ?thesis by simp
  next
    case (full l r b e1 g e2 t e3)
    with clipf[OF full(3,4,5), of r] show ?thesis by simp
  qed
  from 1 2 3 4 show ?thesis by blast
qed


section \<open>History buffers\<close>

lemma push_history_length:
  "0 \<le> n \<Longrightarrow> int (length h) \<le> n \<Longrightarrow> int (length (push_history n h x)) \<le> n"
  by (simp add: push_history_def Let_def)

lemma push_history_append: "int (length h) < n \<Longrightarrow> push_history n h x = h @ [x]"
  by (simp add: push_history_def Let_def)

lemma push_history_evict:
  "int (length h) = n \<Longrightarrow> 0 < n \<Longrightarrow> push_history n h x = tl h @ [x]"
  by (cases h) (simp_all add: push_history_def Let_def)

lemma push_history_drop:
  assumes "int (length h) \<le> n"
  shows "push_history n h x = drop (length (h @ [x]) - nat n) (h @ [x])"
proof (cases "int (length h) < n")
  case True
  then show ?thesis by (simp add: push_history_def Let_def)
next
  case False
  with assms have l: "int (length h) = n" by simp
  then have k: "length (h @ [x]) - nat n = Suc 0" by auto
  from l have "push_history n h x = tl (h @ [x])"
    by (simp add: push_history_def Let_def)
  also have "\<dots> = drop (Suc 0) (h @ [x])"
    by (simp only: drop_Suc drop_0)
  finally show ?thesis by (simp only: k)
qed

lemma drop_window:
  assumes "k = length ys - m"
  shows "drop (length (drop k ys @ xs) - m) (drop k ys @ xs)
       = drop (length (ys @ xs) - m) (ys @ xs)"
proof (cases "length ys \<le> m")
  case True
  with assms show ?thesis by simp
next
  case False
  with assms have k: "k \<le> length ys" "length ys - k = m" by simp_all
  have "drop (length (ys @ xs) - m) (ys @ xs) = drop (length xs + k) (ys @ xs)"
    using assms False by (simp add: add.commute)
  also have "\<dots> = drop (length xs) (drop k (ys @ xs))"
    by (simp only: drop_drop)
  also have "\<dots> = drop (length xs) (drop k ys @ xs)"
    using k(1) by simp
  finally have r: "drop (length (ys @ xs) - m) (ys @ xs) = drop (length xs) (drop k ys @ xs)" .
  have "length (drop k ys @ xs) - m = length xs"
    using k(2) by simp
  with r show ?thesis by (simp only:)
qed

lemma foldl_push_history:
  "0 \<le> n \<Longrightarrow> int (length h) \<le> n \<Longrightarrow>
   foldl (push_history n) h xs = drop (length (h @ xs) - nat n) (h @ xs)"
proof (induction xs arbitrary: h)
  case Nil
  then show ?case by simp
next
  case (Cons x xs)
  let ?k = "length (h @ [x]) - nat n"
  let ?h' = "push_history n h x"
  have len: "int (length ?h') \<le> n"
    using Cons.prems by (rule push_history_length)
  have h': "?h' = drop ?k (h @ [x])"
    using Cons.prems(2) by (rule push_history_drop)
  have "foldl (push_history n) h (x # xs) = foldl (push_history n) ?h' xs" by simp
  also have "\<dots> = drop (length (?h' @ xs) - nat n) (?h' @ xs)"
    using Cons.IH[OF Cons.prems(1) len] .
  also have "\<dots> = drop (length (drop ?k (h @ [x]) @ xs) - nat n) (drop ?k (h @ [x]) @ xs)"
    by (simp only: h'[symmetric])
  also have "\<dots> = drop (length ((h @ [x]) @ xs) - nat n) ((h @ [x]) @ xs)"
    by (rule drop_window) simp
  finally show ?case by simp
qed

lemma blink_patterns_state:
  "snd (analyze_blink_patterns lms d) = d \<or>
   (\<exists>e. snd (analyze_blink_patterns lms d)
      = d\<lparr>blink_history := push_history (history_size d) (blink_history d) e\<rparr>)"
  by (auto simp: analyze_blink_patterns_def Let_def split: option.splits)

lemma face_geometry_state:
  "snd (analyze_face_geometry lms d) = d \<or>
   (\<exists>g. snd (analyze_face_geometry lms d)
      = d\<lparr>face_geometry_history := push_history (history_size d) (face_geometry_history d) g\<rparr>)"
  by (auto simp: analyze_face_geometry_def Let_def split: option.splits)

lemma temporal_state:
  "snd (analyze_temporal_consistency cv frame d)
     = d\<lparr>frame_history := push_history (history_size d) (frame_history d) frame\<rparr>"
  by (auto simp: analyze_temporal_consistency_def Let_def split: option.splits)

lemma step_ok_refl: "step_ok d d"
  by (simp add: step_ok_def same_or_pushed_def)

lemma step_ok_blink: "step_ok d (snd (analyze_blink_patterns lms d))"
  using blink_patterns_state[of lms d] by (auto simp: step_ok_def same_or_pushed_def)

lemma step_ok_geometry:
  "step_ok d d1 \<Longrightarrow> face_geometry_history d1 = face_geometry_history d \<Longrightarrow>
   step_ok d (snd (analyze_face_geometry lms d1))"
  using face_geometry_state[of lms d1] by (auto simp: step_ok_def same_or_pushed_def)

lemma step_ok_temporal:
  "step_ok d d2 \<Longrightarrow> frame_history d2 = frame_history d \<Longrightarrow>
   step_ok d (snd (analyze_temporal_consistency cv frame d2))"
  by (auto simp: temporal_state step_ok_def same_or_pushed_def)

lemma blink_keeps_others:
  "face_geometry_history (snd (analyze_blink_patterns lms d)) = face_geometry_history d \<and>
   frame_history (snd (analyze_blink_patterns lms d)) = frame_history d"
  using blink_patterns_state[of lms d] by auto

lemma geometry_keeps_frames:
  "frame_history (snd (analyze_face_geometry lms d)) = frame_history d"
  using face_geometry_state[of lms d] by auto

lemma step_ok_chain2:
  "step_ok d (snd (analyze_face_geometry lms (snd (analyze_blink_patterns lms d))))"
  by (intro step_ok_geometry step_ok_blink) (simp add: blink_keeps_others)

lemma step_ok_chain3:
  "step_ok d (snd (analyze_temporal_consistency cv frame
     (snd (analyze_face_geometry lms (snd (analyze_blink_patterns lms d))))))"
  by (intro step_ok_temporal step_ok_chain2) (simp add: geometry_keeps_frames blink_keeps_others)

lemma process_frame_step: "step_ok d (snd (DeepfakeDetector_process_frame cv frame d))"
proof (cases cv frame d rule: process_frame_cases)
  case none
  then show ?thesis by (simp add: step_ok_refl)
next
  case (error d')
  then show ?thesis
    using step_ok_blink step_ok_chain2 step_ok_chain3 by (auto simp: step_ok_refl)
next
  case limited
  then show ?thesis by (simp add: step_ok_refl)
next
  case (full lms region b d1 g d2 t d3)
  from full(3,4,5) have "d3 = snd (analyze_temporal_consistency cv frame
     (snd (analyze_face_geometry lms (snd (analyze_blink_patterns lms d)))))"
    by simp
  with full(6) show ?thesis by (simp add: step_ok_chain3)
qed

lemma step_ok_bounded:
  "step_ok d d' \<Longrightarrow> 0 \<le> history_size d \<Longrightarrow> histories_bounded d \<Longrightarrow> histories_bounded d'"
  by (auto simp: step_ok_def same_or_pushed_def histories_bounded_def push_history_length)

lemma process_frames_bounded:
  "0 \<le> history_size d \<Longrightarrow> histories_bounded d \<Longrightarrow>
   histories_bounded (process_frames cv fs d) \<and>
   history_size (process_frames cv fs d) = history_size d"
proof (induction fs arbitrary: d)
  case Nil
  then show ?case by simp
next
  case (Cons f fs)
  let ?d' = "snd (DeepfakeDetector_process_frame cv f d)"
  have s: "step_ok d ?d'" by (rule process_frame_step)
  then have hs: "history_size ?d' = history_size d" by (simp add: step_ok_def)
  from step_ok_bounded[OF s Cons.prems] have b: "histories_bounded ?d'" .
  from Cons.IH[of ?d'] hs b Cons.prems(1) show ?case by simp
qed

text \<open>
  C7.  With a capacity \<open>history_size\<close> that is not negative, after any number of
  frames processed by a fresh detector the blink history, the geometry history
  and the frame history each hold at most \<open>history_size\<close> entries.  A processed
  frame leaves each history as it is or pushes one entry onto it; a push appends
  while the history is not full and, on a full history, drops the oldest entry and
  appends the new one; after any sequence of pushes onto an empty history the
  last \<open>history_size\<close> entries pushed survive, in order.
\<close>

theorem history_buffers_bounded_fifo:
  "0 \<le> n \<Longrightarrow>
   histories_bounded (process_frames cv fs (init_detector n mp)) \<and>
   step_ok d (snd (DeepfakeDetector_process_frame cv frame d)) \<and>
   (int (length h) < n \<longrightarrow> push_history n h x = h @ [x]) \<and>
   (int (length h) = n \<and> 0 < n \<longrightarrow> push_history n h x = tl h @ [x]) \<and>
   foldl (push_history n) [] xs = drop (length xs - nat n) xs"
proof -
  assume n: "0 \<le> n"
  have i: "histories_bounded (init_detector n mp :: 'a DeepfakeDetector)"
    "history_size (init_detector n mp :: 'a DeepfakeDetector) = n"
    using n by (simp_all add: init_detector_def histories_bounded_def)
  have "histories_bounded (process_frames cv fs (init_detector n mp))"
    using process_frames_bounded[of "init_detector n mp" cv fs] i n by simp
  moreover have "foldl (push_history n) [] xs = drop (length xs - nat n) xs"
    using foldl_push_history[of n "[]" xs] n by simp
  ultimately show ?thesis
    by (simp add: process_frame_step push_history_append push_history_evict)
qed

section \<open>Example runs\<close>

theorem neutral_on_short_landmarks_witness:
  "detect_blink None = (False, 0) \<and> detect_mouth_open None = (False, 0) \<and>
   detect_blink (Some []) = (False, 0) \<and> detect_mouth_open (Some []) = (False, 0) \<and>
   detect_blink (Some (replicate 399 (1 / 2, 1 / 2, 0))) = (False, 0) \<and>
   detect_mouth_open (Some (replicate 399 (1 / 2, 1 / 2, 0))) = (False, 0)"
  using neutral_on_short_landmarks[of None] neutral_on_short_landmarks[of "Some []"]
    neutral_on_short_landmarks[of "Some (replicate 399 (1 / 2, 1 / 2, 0))"]
  by simp

lemma demo_cv_fields:
  "frame_empty demo_cv f = (f = 0)"
  "frame_shape demo_cv f = (480, 640)"
  "cascade_faces demo_cv f = (if 2 \<le> f then [(200, 100, 200, 200)] else [])"
  "cvt_rgb demo_cv f"
  "cvt_gray demo_cv f"
  "face_mesh demo_cv f = (if f = 3 then Some demo_landmarks else None)"
  "median_absdiff demo_cv f g = Some 10"
  "texture_measure demo_cv f (x, y, w, h)
     = (if w \<le> 0 \<or> h \<le> 0 then None else Some demo_texture_raw)"
  "mean_absdiff demo_cv f g = Some 1"
  by (simp_all add: demo_cv_def)

lemma demo_texture: "analyze_micro_textures demo_cv f None =
   \<lparr>tx_laplacian_variance = 500, tx_edge_density = 1 / 10, tx_smoothness_score = 98 / 100,
     tx_boundary_artifacts_confidence = 1 / 2, tx_compression_artifacts_confidence = 1 / 1000,
     tx_anomaly_score = 716 / 1000, tx_error = False\<rparr>"
  by (simp add: analyze_micro_textures_def crop_region_def py_int_def demo_cv_fields
      demo_texture_raw_def analyze_smoothness_def detect_boundary_artifacts_def
      detect_compression_artifacts_def compute_texture_anomaly_score_def np_clip_def np_mean_def
      Let_def)

lemma demo_texture_empty_crop:
  "analyze_micro_textures demo_cv f (Some (320, 240, 0, 0)) = texture_fallback"
  by (simp add: analyze_micro_textures_def crop_region_def demo_cv_fields)

lemma demo_limited:
  "DeepfakeDetector_process_frame demo_cv 2 (new_DeepfakeDetector True) =
     (\<lparr>dr_face_detected = True, deepfake_score = 558 / 1000, is_likely_deepfake = Some False,
       dr_indicators = Limited (analyze_micro_textures demo_cv 2 None)\<rparr>,
      new_DeepfakeDetector True)"
  by (simp add: DeepfakeDetector_process_frame_def Let_def demo_texture df_landmarks_def
      new_DeepfakeDetector_def init_detector_def np_clip_def demo_cv_fields)

text \<open>
  C5, as stated, fails: on a frame with a face and no landmarks whose texture
  anomaly is 0.716 the score is 0.558, above 0.5, and the flag is false.
\<close>

theorem deepfake_flag_counterexample:
  "dr_face_detected (fst (DeepfakeDetector_process_frame demo_cv 2 (new_DeepfakeDetector True))) \<and>
   deepfake_score (fst (DeepfakeDetector_process_frame demo_cv 2 (new_DeepfakeDetector True))) > 0.5 \<and>
   is_likely_deepfake (fst (DeepfakeDetector_process_frame demo_cv 2 (new_DeepfakeDetector True)))
     = Some False"
  by (simp add: demo_limited)

lemma demo_liveness_2:
  "LivenessDetector_process_frame demo_cv 2 (new_LivenessDetector True) =
     (\<lparr>lr_face_detected = True, liveness_score = 1 / 2, is_likely_live = Some False,
       lr_detections = Detections (False, 0) (False, 2 / 10, Reason ''motion_fallback'') (False, 0)\<rparr>,
      (new_LivenessDetector True)\<lparr>prev_frame_landmarks := Some (PrevGray 2)\<rparr>)"
  by (simp add: LivenessDetector_process_frame_def Let_def lv_landmarks_def
      new_LivenessDetector_def detect_motion_in_frame_def demo_cv_fields)

lemma demo_take_rows:
  "list_all (\<lambda>i. i < 478) idx \<Longrightarrow>
   take_rows (replicate 478 p) idx = Some (replicate (length idx) p)"
  by (simp add: take_rows_def list_all_iff map_replicate_const[symmetric] cong: map_cong)

lemma ear_same: "eye_aspect_ratio [p, p, p, p, p, p] = 0"
  by (cases p) (simp add: eye_aspect_ratio_def norm3_def sub3_def)

lemma demo_blink: "detect_blink (Some demo_landmarks) = (True, 1)"
  by (simp add: detect_blink_def demo_landmarks_def demo_take_rows LEFT_EYE_def RIGHT_EYE_def
      ear_same Let_def)

lemma demo_mouth: "detect_mouth_open (Some demo_landmarks) = (False, 0)"
  by (simp add: detect_mouth_open_def demo_landmarks_def py_index_def norm3_def sub3_def Let_def)

lemma demo_liveness_3:
  "LivenessDetector_process_frame demo_cv 3 (new_LivenessDetector True) =
     (\<lparr>lr_face_detected = True, liveness_score = 3 / 10, is_likely_live = Some False,
       lr_detections = Detections (True, 1) (False, 0, Reason ''no_previous_frame'') (False, 0)\<rparr>,
      (new_LivenessDetector True)\<lparr>prev_frame_landmarks := Some (PrevLandmarks demo_landmarks)\<rparr>)"
  by (simp add: LivenessDetector_process_frame_def Let_def lv_landmarks_def demo_blink demo_mouth
      new_LivenessDetector_def detect_head_movement_def demo_cv_fields)

theorem liveness_score_formula_witness:
  "liveness_score (fst (LivenessDetector_process_frame demo_cv 2 (new_LivenessDetector True)))
     = max (0.3 * 0 + 0.4 * 0.2 + 0.3 * 0) 0.5 \<and>
   is_likely_live (fst (LivenessDetector_process_frame demo_cv 2 (new_LivenessDetector True)))
     = Some False \<and>
   liveness_score (fst (LivenessDetector_process_frame demo_cv 3 (new_LivenessDetector True)))
     = 0.3 * 1 + 0.4 * 0 + 0.3 * 0 \<and>
   liveness_score (fst (LivenessDetector_process_frame demo_cv 0 (new_LivenessDetector True))) = 0"
proof -
  let ?s = "new_LivenessDetector True"
  let ?s2 = "?s\<lparr>prev_frame_landmarks := Some (PrevGray 2)\<rparr>"
  let ?s3 = "?s\<lparr>prev_frame_landmarks := Some (PrevLandmarks demo_landmarks)\<rparr>"
  note f2 = liveness_score_formula[where cv = demo_cv and frame = 2 and s = ?s
      and lms = demo_landmarks and blink_detected = True and blink_conf = 1
      and move_detected = False and move_conf = 0 and move_details = "Reason ''no_previous_frame''"
      and ?s1.0 = ?s3 and mouth_open = False and mouth_conf = 0 and motion = "2 / 10"
      and ?s2.0 = ?s2]
  note f3 = liveness_score_formula[where cv = demo_cv and frame = 3 and s = ?s
      and lms = demo_landmarks and blink_detected = True and blink_conf = 1
      and move_detected = False and move_conf = 0 and move_details = "Reason ''no_previous_frame''"
      and ?s1.0 = ?s3 and mouth_open = False and mouth_conf = 0 and motion = "2 / 10"
      and ?s2.0 = ?s2]
  note f0 = liveness_score_formula[where cv = demo_cv and frame = 0 and s = ?s
      and lms = demo_landmarks and blink_detected = True and blink_conf = 1
      and move_detected = False and move_conf = 0 and move_details = "Reason ''no_previous_frame''"
      and ?s1.0 = ?s3 and mouth_open = False and mouth_conf = 0 and motion = "2 / 10"
      and ?s2.0 = ?s2]
  have l2: "lv_landmarks demo_cv 2 ?s = None"
    and l3: "lv_landmarks demo_cv 3 ?s = Some demo_landmarks"
    and c: "confidence_threshold ?s = 0.7"
    by (simp_all add: lv_landmarks_def demo_cv_fields new_LivenessDetector_def)
  have m2: "detect_motion_in_frame demo_cv 2 ?s = (2 / 10, ?s2)"
    by (simp add: detect_motion_in_frame_def demo_cv_fields new_LivenessDetector_def)
  have h3: "detect_head_movement demo_cv (Some demo_landmarks) ?s
      = ((False, 0, Reason ''no_previous_frame''), ?s3)"
    by (simp add: detect_head_movement_def new_LivenessDetector_def)
  from f2 l2 m2 c have r2: "fst (LivenessDetector_process_frame demo_cv 2 ?s) =
      \<lparr>lr_face_detected = True, liveness_score = 1 / 2, is_likely_live = Some False,
        lr_detections = Detections (False, 0) (False, 2 / 10, Reason ''motion_fallback'')
          (False, 0)\<rparr>"
    by (simp add: demo_cv_fields)
  from f3 l3 h3 c demo_blink demo_mouth
  have r3: "fst (LivenessDetector_process_frame demo_cv 3 ?s) =
      \<lparr>lr_face_detected = True, liveness_score = 3 / 10, is_likely_live = Some False,
        lr_detections = Detections (True, 1) (False, 0, Reason ''no_previous_frame'')
          (False, 0)\<rparr>"
    by (simp add: demo_cv_fields)
  from f0 have r0: "fst (LivenessDetector_process_frame demo_cv 0 ?s) =
      \<lparr>lr_face_detected = False, liveness_score = 0, is_likely_live = None,
        lr_detections = NoDetections\<rparr>"
    by (simp add: demo_cv_fields)
  from r2 r3 r0 show ?thesis by simp
qed

theorem frame_outputs_in_unit_interval_witness:
  "liveness_outputs_unit (fst (LivenessDetector_process_frame demo_cv 3 (new_LivenessDetector True))) \<and>
   deepfake_outputs_unit (fst (DeepfakeDetector_process_frame demo_cv 3 (new_DeepfakeDetector True)))"
  by (rule frame_outputs_in_unit_interval)

lemma demo_df_landmarks:
  "df_landmarks demo_cv 3 (new_DeepfakeDetector True) = Some (replicate 478 (320, 240, 0))"
  by (simp add: df_landmarks_def demo_cv_fields new_DeepfakeDetector_def init_detector_def
      demo_landmarks_def)

lemma demo_region:
  "face_region_of demo_cv 3 (replicate 478 (320, 240, 0)) = Some (320, 240, 0, 0)"
  by (simp add: face_region_of_def demo_cv_fields py_int_def Let_def)

lemma demo_blink_analysis:
  "analyze_blink_patterns (replicate 478 p) (new_DeepfakeDetector True) =
     (Some \<lparr>bl_current_ear = 0, bl_blink_rate = 0, bl_blink_pattern_anomaly = 0,
            bl_blink_duration_anomaly = 0\<rparr>,
      (new_DeepfakeDetector True)\<lparr>blink_history := [0]\<rparr>)"
  by (simp add: analyze_blink_patterns_def demo_take_rows LEFT_EYE_def RIGHT_EYE_def ear_same
      Let_def new_DeepfakeDetector_def init_detector_def push_history_def
      detect_blink_pattern_anomaly_def calculate_blink_rate_def detect_blink_duration_anomaly_def)

lemma demo_geometry_analysis:
  "analyze_face_geometry (replicate 478 p) ((new_DeepfakeDetector True)\<lparr>blink_history := [0]\<rparr>) =
     (Some \<lparr>ge_face_height = 0, ge_face_width = 0, ge_mouth_face_ratio = 0,
            ge_width_height_ratio = 0, ge_geometry_consistency_score = 0\<rparr>,
      (new_DeepfakeDetector True)\<lparr>blink_history := [0],
         face_geometry_history := [\<lparr>face_height = 0, face_width = 0, mouth_width = 0,
            mouth_face_ratio = 0, width_height_ratio = 0\<rparr>]\<rparr>)"
  by (cases p) (simp add: analyze_face_geometry_def py_index_def norm3_def sub3_def Let_def
      new_DeepfakeDetector_def init_detector_def push_history_def
      analyze_geometry_consistency_def)

lemma demo_temporal_analysis:
  "frame_history d = [] \<Longrightarrow> history_size d = 30 \<Longrightarrow>
   analyze_temporal_consistency demo_cv 3 d =
     (Some \<lparr>tm_temporal_anomaly = 0, tm_mean_frame_difference = None,
            tm_frame_difference_variance = None\<rparr>, d\<lparr>frame_history := [3]\<rparr>)"
  by (simp add: analyze_temporal_consistency_def push_history_def Let_def)

lemma demo_full:
  "dr_indicators (fst (DeepfakeDetector_process_frame demo_cv 3 (new_DeepfakeDetector True))) =
     Full (analyze_micro_textures demo_cv 3 (Some (320, 240, 0, 0)))
       \<lparr>bl_current_ear = 0, bl_blink_rate = 0, bl_blink_pattern_anomaly = 0,
         bl_blink_duration_anomaly = 0\<rparr>
       \<lparr>ge_face_height = 0, ge_face_width = 0, ge_mouth_face_ratio = 0,
         ge_width_height_ratio = 0, ge_geometry_consistency_score = 0\<rparr>
       \<lparr>tm_temporal_anomaly = 0, tm_mean_frame_difference = None,
         tm_frame_difference_variance = None\<rparr>"
proof -
  have t: "analyze_temporal_consistency demo_cv 3
      ((new_DeepfakeDetector True)\<lparr>blink_history := [0],
         face_geometry_history := [\<lparr>face_height = 0, face_width = 0, mouth_width = 0,
            mouth_face_ratio = 0, width_height_ratio = 0\<rparr>]\<rparr>) =
     (Some \<lparr>tm_temporal_anomaly = 0, tm_mean_frame_difference = None,
            tm_frame_difference_variance = None\<rparr>,
      (new_DeepfakeDetector True)\<lparr>blink_history := [0],
         face_geometry_history := [\<lparr>face_height = 0, face_width = 0, mouth_width = 0,
            mouth_face_ratio = 0, width_height_ratio = 0\<rparr>], frame_history := [3]\<rparr>)"
    by (rule demo_temporal_analysis) (simp_all add: new_DeepfakeDetector_def init_detector_def)
  show ?thesis
    by (simp add: DeepfakeDetector_process_frame_def Let_def demo_cv_fields demo_df_landmarks
        demo_region demo_blink_analysis demo_geometry_analysis t)
qed

theorem deepfake_score_formula_witness:
  "deepfake_score (fst (DeepfakeDetector_process_frame demo_cv 2 (new_DeepfakeDetector True)))
     = 0.5 * 0.716 + 0.2 \<and>
   is_likely_deepfake (fst (DeepfakeDetector_process_frame demo_cv 2 (new_DeepfakeDetector True)))
     = Some False \<and>
   deepfake_score (fst (DeepfakeDetector_process_frame demo_cv 3 (new_DeepfakeDetector True)))
     = 0.35 * 0.2 + 0.25 * 0 + 0.2 * 0 + 0.2 * 0 \<and>
   is_likely_deepfake (fst (DeepfakeDetector_process_frame demo_cv 3 (new_DeepfakeDetector True)))
     = Some False \<and>
   deepfake_score (fst (DeepfakeDetector_process_frame demo_cv 0 (new_DeepfakeDetector True))) = 0"
proof -
  let ?d = "new_DeepfakeDetector True"
  let ?g = "\<lparr>face_height = 0, face_width = 0, mouth_width = 0, mouth_face_ratio = 0,
      width_height_ratio = 0\<rparr>"
  let ?d1 = "?d\<lparr>blink_history := [0]\<rparr>"
  let ?d2 = "?d\<lparr>blink_history := [0], face_geometry_history := [?g]\<rparr>"
  let ?d3 = "?d\<lparr>blink_history := [0], face_geometry_history := [?g], frame_history := [3]\<rparr>"
  let ?blink = "\<lparr>bl_current_ear = 0, bl_blink_rate = 0, bl_blink_pattern_anomaly = 0,
      bl_blink_duration_anomaly = 0\<rparr>"
  let ?geom = "\<lparr>ge_face_height = 0, ge_face_width = 0, ge_mouth_face_ratio = 0,
      ge_width_height_ratio = 0, ge_geometry_consistency_score = 0\<rparr>"
  let ?temporal = "\<lparr>tm_temporal_anomaly = 0, tm_mean_frame_difference = None,
      tm_frame_difference_variance = None\<rparr>"
  note f2 = deepfake_score_formula[where cv = demo_cv and frame = 2 and d = ?d
      and lms = "replicate 478 (320, 240, 0)" and region = "(320, 240, 0, 0)"
      and blink = ?blink and ?d1.0 = ?d1 and geom = ?geom and ?d2.0 = ?d2
      and temporal = ?temporal and ?d3.0 = ?d3]
  note f3 = deepfake_score_formula[where cv = demo_cv and frame = 3 and d = ?d
      and lms = "replicate 478 (320, 240, 0)" and region = "(320, 240, 0, 0)"
      and blink = ?blink and ?d1.0 = ?d1 and geom = ?geom and ?d2.0 = ?d2
      and temporal = ?temporal and ?d3.0 = ?d3]
  note f0 = deepfake_score_formula[where cv = demo_cv and frame = 0 and d = ?d
      and lms = "replicate 478 (320, 240, 0)" and region = "(320, 240, 0, 0)"
      and blink = ?blink and ?d1.0 = ?d1 and geom = ?geom and ?d2.0 = ?d2
      and temporal = ?temporal and ?d3.0 = ?d3]
  have n2: "df_landmarks demo_cv 2 ?d = None"
    by (simp add: df_landmarks_def demo_cv_fields)
  have t: "analyze_temporal_consistency demo_cv 3 ?d2 = (Some ?temporal, ?d3)"
    using demo_temporal_analysis[of ?d2]
    by (simp add: new_DeepfakeDetector_def init_detector_def)
  from f2 n2 have r2: "fst (DeepfakeDetector_process_frame demo_cv 2 ?d) =
      \<lparr>dr_face_detected = True, deepfake_score = 558 / 1000, is_likely_deepfake = Some False,
        dr_indicators = Limited (analyze_micro_textures demo_cv 2 None)\<rparr>"
    by (simp add: demo_cv_fields demo_texture)
  from f3 demo_df_landmarks demo_region demo_blink_analysis[of "(320, 240, 0)"]
    demo_geometry_analysis[of "(320, 240, 0)"] t
  have r3: "fst (DeepfakeDetector_process_frame demo_cv 3 ?d) =
      \<lparr>dr_face_detected = True, deepfake_score = 7 / 100, is_likely_deepfake = Some False,
        dr_indicators = Full texture_fallback ?blink ?geom ?temporal\<rparr>"
    by (simp add: demo_cv_fields demo_texture_empty_crop texture_fallback_def)
  from f0 have r0: "fst (DeepfakeDetector_process_frame demo_cv 0 ?d) = df_no_face"
    by (simp add: demo_cv_fields)
  from r2 r3 r0 show ?thesis by (simp add: df_no_face_def)
qed

theorem history_buffers_bounded_fifo_witness:
  "histories_bounded (process_frames demo_cv [3, 3, 3] (init_detector 2 True)) \<and>
   push_history 2 [1 :: nat] 2 = [1, 2] \<and>
   push_history 2 [1, 2 :: nat] 3 = [2, 3] \<and>
   foldl (push_history 2) [] [1, 2, 3, 4 :: nat] = [3, 4]"
proof -
  note a = history_buffers_bounded_fifo[where n = 2 and cv = demo_cv and fs = "[3, 3, 3]"
      and mp = True and h = "[1 :: nat]" and x = 2 and xs = "[1, 2, 3, 4 :: nat]"]
  note b = history_buffers_bounded_fifo[where n = 2 and cv = demo_cv and fs = "[3, 3, 3]"
      and mp = True and h = "[1, 2 :: nat]" and x = 3 and xs = "[1, 2, 3, 4 :: nat]"]
  from a have 1: "histories_bounded (process_frames demo_cv [3, 3, 3] (init_detector 2 True))"
    by simp
  from a have 2: "push_history 2 [1 :: nat] 2 = [1, 2]"
    by simp
  from b have 3: "push_history 2 [1, 2 :: nat] 3 = [2, 3]"
    by simp
  from a have 4: "foldl (push_history 2) [] [1, 2, 3, 4 :: nat] = [3, 4]"
    by simp
  from 1 2 3 4 show ?thesis by simp
qed

end
